theory Spec2Isabelle
  imports Complex_Main "HOL-Library.Monad_Syntax"
begin

section \<open>Numbers, records and the random source\<close>

text \<open>
  The calculator is the class \<open>BayesianCalculator\<close> of
  \<open>src/components/StatisticalImagesGallery.js\<close>. JavaScript numbers are modelled as
  reals: the arithmetic of the source is taken exactly, without rounding. Two places
  where the source leaves the finite numbers decide properties below and are modelled as
  JavaScript computes them: the division by the configured sample count (\<open>0 / 0\<close> is
  \<open>NaN\<close>, \<open>x / 0\<close> is an infinity), and the square root in the set-up of Cheng's
  sampler (see \<open>sampleBetaCheng\<close>). The sampled values are those of the source for
  draws strictly between \<open>0\<close> and \<open>1\<close>; for a draw equal to \<open>0\<close> the source can
  compute \<open>0 / 0\<close> or the logarithm of \<open>0\<close>, which the reals do not represent.
\<close>

datatype js_number = Num real | PosInfinity | NegInfinity | NaN

definition js_div :: "real \<Rightarrow> real \<Rightarrow> js_number" where
  "js_div x y =
     (if y \<noteq> 0 then Num (x / y)
      else if 0 < x then PosInfinity
      else if x < 0 then NegInfinity
      else NaN)"

text \<open>
  \<open>v >= t\<close> and \<open>v <= t\<close> for a finite \<open>t\<close>: every comparison with \<open>NaN\<close> is false.
\<close>

fun js_ge :: "js_number \<Rightarrow> real \<Rightarrow> bool" where
  "js_ge (Num x) t = (t \<le> x)"
| "js_ge PosInfinity t = True"
| "js_ge NegInfinity t = False"
| "js_ge NaN t = False"

fun js_le :: "js_number \<Rightarrow> real \<Rightarrow> bool" where
  "js_le (Num x) t = (x \<le> t)"
| "js_le PosInfinity t = False"
| "js_le NegInfinity t = True"
| "js_le NaN t = False"

text \<open>
  \<open>{alpha, beta}\<close> objects (priors and posteriors), and the calculator instance, which
  has the fields \<open>alpha\<close>, \<open>beta\<close> (its prior) and \<open>monteCarloSamples\<close>.
\<close>

record betaParams =
  alpha :: real
  beta :: real

record calculator = betaParams +
  monteCarloSamples :: nat

record observation =
  successes :: real
  trials :: real

text \<open>
  The object \<open>calculateExpectedLoss\<close> returns, and the record \<open>sequentialTest\<close>
  pushes for each step. Both have a field \<open>probBGreater\<close>, written with the record's
  name below.
\<close>

record expectedLoss =
  lossA :: js_number
  lossB :: js_number
  probBGreater :: js_number

record sequentialStep =
  step :: nat
  probBGreater :: js_number
  expectedLoss :: expectedLoss
  posteriorA :: betaParams
  posteriorB :: betaParams
  shouldStop :: bool

text \<open>
  \<open>Math.random()\<close> is the only source of randomness. A run of the program sees a
  sequence of draws \<open>rnd 0, rnd 1, ...\<close>; every function that draws takes the sequence
  and the number \<open>k\<close> of draws made so far, and returns its result with the new count.
  A loop of the source that does not exit is the result \<open>None\<close>.
\<close>

type_synonym random_source = "nat \<Rightarrow> real"

section \<open>Posterior\<close>

text \<open>
  The class body declares \<open>calculatePosterior\<close> twice (lines 417 and 818); the later
  declaration is the method the instance has. Its third and fourth parameters default to
  the instance's prior when the caller leaves them out (\<open>None\<close>).

  \<^verbatim>\<open>
  calculatePosterior(successes, trials, alpha = this.alpha, beta = this.beta) {
    const failures = trials - successes;
    return { alpha: alpha + successes, beta: beta + failures };
  }
  \<close>
\<close>

definition calculatePosterior ::
  "calculator \<Rightarrow> real \<Rightarrow> real \<Rightarrow> real option \<Rightarrow> real option \<Rightarrow> betaParams" where
  "calculatePosterior this successes' trials' alpha_arg beta_arg =
     (let alpha' = (case alpha_arg of None \<Rightarrow> alpha this | Some a \<Rightarrow> a);
          beta' = (case beta_arg of None \<Rightarrow> beta this | Some b \<Rightarrow> b);
          failures = trials' - successes'
      in \<lparr>alpha = alpha' + successes', beta = beta' + failures\<rparr>)"

text \<open>The observations the specification calls invalid.\<close>

definition invalidObservation :: "real \<Rightarrow> real \<Rightarrow> bool" where
  "invalidObservation successes' trials' \<longleftrightarrow>
     trials' < successes' \<or> successes' < 0 \<or> trials' < 0"


section \<open>Special functions\<close>

text \<open>
  \<^verbatim>\<open>
  logGamma(x) {
    if (x < 0.5) {
      return Math.log(Math.PI) - Math.log(Math.sin(Math.PI * x)) - this.logGamma(1 - x);
    }
    x -= 1;
    let a = x + 5.5;  let b = x + 0.5;  let c = 0.99999999999980993;
    const coefficients = [ ... ];
    for (let i = 0; i < coefficients.length; i++) { c += coefficients[i] / (x + i + 1); }
    return Math.log(c) + b * Math.log(a) - a;
  }
  \<close>
\<close>

definition coefficients :: "real list" where
  "coefficients =
     [676.5203681218851, -1259.1392167224028, 771.32342877765313,
      -176.61502916214059, 12.507343278686905, -0.13857109526572012,
      9.9843695780195716 / 10 ^ 6, 1.5056327351493116 / 10 ^ 7]"

function logGamma :: "real \<Rightarrow> real" where
  "logGamma x =
     (if x < 0.5 then ln pi - ln (sin (pi * x)) - logGamma (1 - x)
      else
        (let x' = x - 1;
             a = x' + 5.5;
             b = x' + 0.5;
             c = fold (\<lambda>i c. c + coefficients ! i / (x' + real i + 1))
                   [0..<length coefficients] 0.99999999999980993
         in ln c + b * ln a - a))"
  by pat_completeness auto
termination
  by (relation "measure (\<lambda>x. if x < 0.5 then 1 else 0)") auto

declare logGamma.simps [simp del]

text \<open>
  \<^verbatim>\<open>
  betaPDF(x, alpha, beta) {
    if (x <= 0 || x >= 1) return 0;
    const logBeta = this.logGamma(alpha) + this.logGamma(beta) - this.logGamma(alpha + beta);
    const logPDF = (alpha - 1) * Math.log(x) + (beta - 1) * Math.log(1 - x) - logBeta;
    return Math.exp(logPDF);
  }
  \<close>
\<close>

definition betaPDF :: "real \<Rightarrow> real \<Rightarrow> real \<Rightarrow> real" where
  "betaPDF x \<alpha> \<beta> =
     (if x \<le> 0 \<or> x \<ge> 1 then 0
      else
        (let logBeta = logGamma \<alpha> + logGamma \<beta> - logGamma (\<alpha> + \<beta>);
             logPDF = (\<alpha> - 1) * ln x + (\<beta> - 1) * ln (1 - x) - logBeta
         in exp logPDF))"

text \<open>
  \<^verbatim>\<open>
  betaCDF(x, alpha, beta) {
    if (x <= 0) return 0;
    if (x >= 1) return 1;
    const numPoints = 1000;
    let cdf = 0;
    for (let i = 0; i < numPoints; i++) {
      const t = (i / numPoints) * x;
      cdf += this.betaPDF(t, alpha, beta) * x / numPoints;
    }
    return cdf;
  }
  \<close>
\<close>

definition betaCDF :: "real \<Rightarrow> real \<Rightarrow> real \<Rightarrow> real" where
  "betaCDF x \<alpha> \<beta> =
     (if x \<le> 0 then 0
      else if x \<ge> 1 then 1
      else
        (let numPoints = 1000
         in fold (\<lambda>i cdf.
                    (let t = (real i / real numPoints) * x
                     in cdf + betaPDF t \<alpha> \<beta> * x / real numPoints))
              [0..<numPoints] 0))"

section \<open>Sampling\<close>

text \<open>
  \<^verbatim>\<open>
  sampleBetaRejection(alpha, beta) {
    while (true) {
      const u1 = Math.random();
      const u2 = Math.random();
      const x = Math.pow(u1, 1 / alpha);
      const y = Math.pow(u2, 1 / beta);
      if (x + y <= 1) { return x / (x + y); }
    }
  }
  \<close>
\<close>

partial_function (option) sampleBetaRejection ::
  "real \<Rightarrow> real \<Rightarrow> random_source \<Rightarrow> nat \<Rightarrow> (real \<times> nat) option" where
  "sampleBetaRejection \<alpha> \<beta> rnd k =
     (let u1 = rnd k;
          u2 = rnd (k + 1);
          x = u1 powr (1 / \<alpha>);
          y = u2 powr (1 / \<beta>)
      in if x + y \<le> 1 then Some (x / (x + y), k + 2)
         else sampleBetaRejection \<alpha> \<beta> rnd (k + 2))"

text \<open>
  \<^verbatim>\<open>
  sampleBetaCheng(alpha, beta) {
    const a = Math.min(alpha, beta);
    const b = Math.max(alpha, beta);
    const gamma = a + b;
    const lambda = Math.sqrt((gamma - 2) / (2 * a * b - gamma));
    const mu = a + 1 / lambda;
    while (true) {
      const u1 = Math.random();
      const u2 = Math.random();
      const v = lambda * Math.log(u1 / (1 - u1));
      const w = a * Math.exp(v);
      if (gamma * Math.log(gamma / (b + w)) + mu * v - 1.3862944 >= Math.log(u1 * u1 * u2)) {
        return alpha === a ? w / (b + w) : b / (b + w);
      }
    }
  }
  \<close>
  The loop is \<open>sampleBetaCheng_loop\<close>; its parameters are the constants computed before
  the loop.
\<close>

partial_function (option) sampleBetaCheng_loop ::
  "real \<Rightarrow> real \<Rightarrow> real \<Rightarrow> real \<Rightarrow> real \<Rightarrow> real \<Rightarrow> random_source \<Rightarrow> nat
     \<Rightarrow> (real \<times> nat) option" where
  "sampleBetaCheng_loop \<alpha> a b \<gamma> l \<mu> rnd k =
     (let u1 = rnd k;
          u2 = rnd (k + 1);
          v = l * ln (u1 / (1 - u1));
          w = a * exp v
      in if \<gamma> * ln (\<gamma> / (b + w)) + \<mu> * v - 1.3862944 \<ge> ln (u1 * u1 * u2)
         then Some (if \<alpha> = a then w / (b + w) else b / (b + w), k + 2)
         else sampleBetaCheng_loop \<alpha> a b \<gamma> l \<mu> rnd (k + 2))"

text \<open>
  When the quotient under the square root is not a positive number, \<open>lambda\<close> is not a
  positive finite number in JavaScript: for a negative quotient \<open>Math.sqrt\<close> gives
  \<open>NaN\<close>, so \<open>v\<close> and the left-hand side of the test are \<open>NaN\<close>; for a zero
  numerator over a negative denominator \<open>lambda\<close> is \<open>-0\<close>, \<open>mu\<close> is \<open>-Infinity\<close>
  and \<open>mu * v\<close> is \<open>NaN\<close>; for a zero denominator \<open>lambda\<close> is \<open>Infinity\<close> (or
  \<open>NaN\<close>) and the left-hand side is \<open>-Infinity\<close> or \<open>NaN\<close>. A comparison with
  \<open>NaN\<close> is false and \<open>-Infinity\<close> is below the logarithm of a positive number, so
  with draws inside \<open>(0, 1)\<close> the test never passes and the loop does not exit: the
  model returns \<open>None\<close> there. (In HOL, \<open>x / 0 = 0\<close>, so \<open>0 < quotient\<close> excludes the
  zero denominator.)
\<close>

definition sampleBetaCheng ::
  "real \<Rightarrow> real \<Rightarrow> random_source \<Rightarrow> nat \<Rightarrow> (real \<times> nat) option" where
  "sampleBetaCheng \<alpha> \<beta> rnd k =
     (let a = min \<alpha> \<beta>;
          b = max \<alpha> \<beta>;
          \<gamma> = a + b;
          quotient = (\<gamma> - 2) / (2 * a * b - \<gamma>)
      in if 0 < quotient then
           (let l = sqrt quotient;
                \<mu> = a + 1 / l
            in sampleBetaCheng_loop \<alpha> a b \<gamma> l \<mu> rnd k)
         else None)"

text \<open>
  \<^verbatim>\<open>
  sampleBeta(alpha, beta) {
    if (alpha <= 1 && beta <= 1) { return this.sampleBetaRejection(alpha, beta); }
    else { return this.sampleBetaCheng(alpha, beta); }
  }
  \<close>
\<close>

definition sampleBeta ::
  "real \<Rightarrow> real \<Rightarrow> random_source \<Rightarrow> nat \<Rightarrow> (real \<times> nat) option" where
  "sampleBeta \<alpha> \<beta> rnd k =
     (if \<alpha> \<le> 1 \<and> \<beta> \<le> 1 then sampleBetaRejection \<alpha> \<beta> rnd k
      else sampleBetaCheng \<alpha> \<beta> rnd k)"

text \<open>
  \<^verbatim>\<open>
  monteCarloSample(posterior, samples = this.monteCarloSamples) {
    const { alpha, beta } = posterior;
    const samples_array = [];
    for (let i = 0; i < samples; i++) { samples_array.push(this.sampleBeta(alpha, beta)); }
    return samples_array;
  }
  \<close>
  Every call in the class passes \<open>samples\<close>. The loop runs \<open>samples\<close> times;
  \<open>monteCarloSample_loop\<close> counts the iterations that remain.
\<close>

fun monteCarloSample_loop ::
  "real \<Rightarrow> real \<Rightarrow> random_source \<Rightarrow> nat \<Rightarrow> real list \<Rightarrow> nat \<Rightarrow> (real list \<times> nat) option" where
  "monteCarloSample_loop \<alpha> \<beta> rnd 0 samples_array k = Some (samples_array, k)"
| "monteCarloSample_loop \<alpha> \<beta> rnd (Suc n) samples_array k =
     (case sampleBeta \<alpha> \<beta> rnd k of
        None \<Rightarrow> None
      | Some (x, k') \<Rightarrow> monteCarloSample_loop \<alpha> \<beta> rnd n (samples_array @ [x]) k')"

definition monteCarloSample ::
  "betaParams \<Rightarrow> nat \<Rightarrow> random_source \<Rightarrow> nat \<Rightarrow> (real list \<times> nat) option" where
  "monteCarloSample posterior samples rnd k =
     monteCarloSample_loop (alpha posterior) (beta posterior) rnd samples [] k"

section \<open>Monte Carlo estimates\<close>

text \<open>
  \<^verbatim>\<open>
  calculateProbabilityBGreaterThanAMonteCarlo(posteriorA, posteriorB) {
    const samplesA = this.monteCarloSample(posteriorA, this.monteCarloSamples);
    const samplesB = this.monteCarloSample(posteriorB, this.monteCarloSamples);
    let count = 0;
    for (let i = 0; i < this.monteCarloSamples; i++) {
      if (samplesB[i] > samplesA[i]) { count++; }
    }
    return count / this.monteCarloSamples;
  }
  \<close>
\<close>

definition calculateProbabilityBGreaterThanAMonteCarlo ::
  "calculator \<Rightarrow> betaParams \<Rightarrow> betaParams \<Rightarrow> random_source \<Rightarrow> nat
     \<Rightarrow> (js_number \<times> nat) option" where
  "calculateProbabilityBGreaterThanAMonteCarlo this postA postB rnd k =
     do {
       (samplesA, k1) \<leftarrow> monteCarloSample postA (monteCarloSamples this) rnd k;
       (samplesB, k2) \<leftarrow> monteCarloSample postB (monteCarloSamples this) rnd k1;
       let count = fold (\<lambda>i count. if samplesB ! i > samplesA ! i then count + 1 else count)
                     [0..<monteCarloSamples this] (0::nat);
       Some (js_div (real count) (real (monteCarloSamples this)), k2)
     }"

text \<open>
  \<^verbatim>\<open>
  calculateExpectedLoss(posteriorA, posteriorB) {
    const probBGreater = this.calculateProbabilityBGreaterThanAMonteCarlo(posteriorA, posteriorB);
    const samplesA = this.monteCarloSample(posteriorA, this.monteCarloSamples);
    const samplesB = this.monteCarloSample(posteriorB, this.monteCarloSamples);
    let lossA = 0;
    let lossB = 0;
    for (let i = 0; i < this.monteCarloSamples; i++) {
      lossA += Math.max(0, samplesB[i] - samplesA[i]);
      lossB += Math.max(0, samplesA[i] - samplesB[i]);
    }
    return { lossA: lossA / this.monteCarloSamples,
             lossB: lossB / this.monteCarloSamples, probBGreater };
  }
  \<close>
\<close>

definition calculateExpectedLoss ::
  "calculator \<Rightarrow> betaParams \<Rightarrow> betaParams \<Rightarrow> random_source \<Rightarrow> nat
     \<Rightarrow> (expectedLoss \<times> nat) option" where
  "calculateExpectedLoss this postA postB rnd k =
     do {
       (probBGreater', k1) \<leftarrow> calculateProbabilityBGreaterThanAMonteCarlo this postA postB rnd k;
       (samplesA, k2) \<leftarrow> monteCarloSample postA (monteCarloSamples this) rnd k1;
       (samplesB, k3) \<leftarrow> monteCarloSample postB (monteCarloSamples this) rnd k2;
       let (lossA', lossB') =
             fold (\<lambda>i (lossA', lossB').
                     (lossA' + max 0 (samplesB ! i - samplesA ! i),
                      lossB' + max 0 (samplesA ! i - samplesB ! i)))
               [0..<monteCarloSamples this] (0, 0);
       Some (\<lparr>lossA = js_div lossA' (real (monteCarloSamples this)),
              lossB = js_div lossB' (real (monteCarloSamples this)),
              probBGreater = probBGreater'\<rparr>, k3)
     }"

section \<open>Sequential test\<close>

text \<open>
  \<^verbatim>\<open>
  sequentialTest(dataA, dataB, threshold = 0.95) {
    const results = [];
    for (let i = 0; i < Math.min(dataA.length, dataB.length); i++) {
      const posteriorA = this.calculatePosterior(dataA[i].successes, dataA[i].trials);
      const posteriorB = this.calculatePosterior(dataB[i].successes, dataB[i].trials);
      const probBGreater = this.calculateProbabilityBGreaterThanAMonteCarlo(posteriorA, posteriorB);
      const expectedLoss = this.calculateExpectedLoss(posteriorA, posteriorB);
      results.push({ step: i + 1, probBGreater, expectedLoss, posteriorA, posteriorB,
        shouldStop: probBGreater >= threshold || probBGreater <= (1 - threshold) });
      if (probBGreater >= threshold || probBGreater <= (1 - threshold)) { break; }
    }
    return results;
  }
  \<close>
  \<open>sequentialTest_loop\<close> is the loop from index \<open>i\<close> on, with the records pushed so far.
\<close>

function sequentialTest_loop ::
  "calculator \<Rightarrow> observation list \<Rightarrow> observation list \<Rightarrow> real \<Rightarrow> random_source
     \<Rightarrow> nat \<Rightarrow> sequentialStep list \<Rightarrow> nat \<Rightarrow> (sequentialStep list \<times> nat) option" where
  "sequentialTest_loop this dataA dataB threshold rnd i results k =
     (if i < min (length dataA) (length dataB) then
        (let postA = calculatePosterior this (successes (dataA ! i)) (trials (dataA ! i))
                       None None;
             postB = calculatePosterior this (successes (dataB ! i)) (trials (dataB ! i))
                       None None
         in case calculateProbabilityBGreaterThanAMonteCarlo this postA postB rnd k of
              None \<Rightarrow> None
            | Some (probBGreater', k1) \<Rightarrow>
                (case calculateExpectedLoss this postA postB rnd k1 of
                   None \<Rightarrow> None
                 | Some (expectedLoss', k2) \<Rightarrow>
                     (let results' = results @
                            [\<lparr>step = i + 1, probBGreater = probBGreater',
                              expectedLoss = expectedLoss',
                              posteriorA = postA, posteriorB = postB,
                              shouldStop = (js_ge probBGreater' threshold
                                            \<or> js_le probBGreater' (1 - threshold))\<rparr>]
                      in if js_ge probBGreater' threshold \<or> js_le probBGreater' (1 - threshold)
                         then Some (results', k2)
                         else sequentialTest_loop this dataA dataB threshold rnd
                                (i + 1) results' k2)))
      else Some (results, k))"
  by pat_completeness auto
termination
  by (relation "measure (\<lambda>(this, dataA, dataB, threshold, rnd, i, results, k).
                  min (length dataA) (length dataB) - i)") auto

declare sequentialTest_loop.simps [simp del]

definition sequentialTest ::
  "calculator \<Rightarrow> observation list \<Rightarrow> observation list \<Rightarrow> real \<Rightarrow> random_source \<Rightarrow> nat
     \<Rightarrow> (sequentialStep list \<times> nat) option" where
  "sequentialTest this dataA dataB threshold rnd k =
     sequentialTest_loop this dataA dataB threshold rnd 0 [] k"

section \<open>Notions used to state the properties\<close>

text \<open>
  The acceptance test and the returned value of one iteration of each sampling loop, at
  the pair of draws \<open>rnd k\<close>, \<open>rnd (k + 1)\<close>: the condition of the \<open>if\<close> and the
  expression of the \<open>return\<close> in \<open>sampleBetaRejection\<close> and \<open>sampleBetaCheng\<close>.
\<close>

definition rejection_accepts :: "real \<Rightarrow> real \<Rightarrow> random_source \<Rightarrow> nat \<Rightarrow> bool" where
  "rejection_accepts \<alpha> \<beta> rnd k \<longleftrightarrow>
     (let u1 = rnd k; u2 = rnd (k + 1); x = u1 powr (1 / \<alpha>); y = u2 powr (1 / \<beta>)
      in x + y \<le> 1)"

definition rejection_value :: "real \<Rightarrow> real \<Rightarrow> random_source \<Rightarrow> nat \<Rightarrow> real" where
  "rejection_value \<alpha> \<beta> rnd k =
     (let u1 = rnd k; u2 = rnd (k + 1); x = u1 powr (1 / \<alpha>); y = u2 powr (1 / \<beta>)
      in x / (x + y))"

definition cheng_accepts ::
  "real \<Rightarrow> real \<Rightarrow> real \<Rightarrow> real \<Rightarrow> real \<Rightarrow> random_source \<Rightarrow> nat \<Rightarrow> bool" where
  "cheng_accepts a b \<gamma> l \<mu> rnd k \<longleftrightarrow>
     (let u1 = rnd k; u2 = rnd (k + 1); v = l * ln (u1 / (1 - u1)); w = a * exp v
      in \<gamma> * ln (\<gamma> / (b + w)) + \<mu> * v - 1.3862944 \<ge> ln (u1 * u1 * u2))"

definition cheng_value :: "real \<Rightarrow> real \<Rightarrow> real \<Rightarrow> real \<Rightarrow> random_source \<Rightarrow> nat \<Rightarrow> real" where
  "cheng_value \<alpha> a b l rnd k =
     (let u1 = rnd k; v = l * ln (u1 / (1 - u1)); w = a * exp v
      in if \<alpha> = a then w / (b + w) else b / (b + w))"

text \<open>
  The number of indices \<open>i < n\<close> at which the B sample exceeds the A sample, and the
  fraction of such pairs among \<open>n\<close> pairs (the superiority probability of one set of
  paired samples).
\<close>

definition count_B_exceeds_A :: "real list \<Rightarrow> real list \<Rightarrow> nat \<Rightarrow> nat" where
  "count_B_exceeds_A samplesA samplesB n =
     length (filter (\<lambda>i. samplesB ! i > samplesA ! i) [0..<n])"

definition paired_superiority :: "real list \<Rightarrow> real list \<Rightarrow> nat \<Rightarrow> js_number" where
  "paired_superiority samplesA samplesB n =
     js_div (real (count_B_exceeds_A samplesA samplesB n)) (real n)"

text \<open>
  What a record pushed at index \<open>i\<close> of the sequential loop satisfies.
\<close>

definition step_of ::
  "calculator \<Rightarrow> observation list \<Rightarrow> observation list \<Rightarrow> real \<Rightarrow> nat \<Rightarrow> sequentialStep \<Rightarrow> bool" where
  "step_of this dataA dataB threshold i r \<longleftrightarrow>
     step r = i + 1
     \<and> posteriorA r = calculatePosterior this (successes (dataA ! i)) (trials (dataA ! i)) None None
     \<and> posteriorB r = calculatePosterior this (successes (dataB ! i)) (trials (dataB ! i)) None None
     \<and> shouldStop r = (js_ge (sequentialStep.probBGreater r) threshold
                       \<or> js_le (sequentialStep.probBGreater r) (1 - threshold))"

text \<open>
  The specification's reading of the sequential input: per-step observations that are
  added up. \<open>cumulativeObservation data i\<close> is the total of the observations at the
  indices \<open>0, ..., i\<close>.
\<close>

definition cumulativeObservation :: "observation list \<Rightarrow> nat \<Rightarrow> observation" where
  "cumulativeObservation data i =
     \<lparr>successes = sum_list (map successes (take (i + 1) data)),
      trials = sum_list (map trials (take (i + 1) data))\<rparr>"

section \<open>Concrete runs\<close>

text \<open>
  Sequences of draws and inputs on which the functions are evaluated below.
  \<open>demo_draws\<close> repeats eight draws; \<open>late_draws\<close> makes the rejection sampler reject
  twice; \<open>cheng_late_draws\<close> makes Cheng's loop reject once; on \<open>cheng_rejected_draws\<close>
  Cheng's loop, with the constants of the shape pair \<open>(1, 2)\<close>, rejects every pair.
\<close>

definition demo_draws :: random_source where
  "demo_draws k = [1 / 2, 1 / 1000, 1 / 3, 1 / 1000, 1 / 3, 1 / 1000, 1 / 2, 1 / 1000] ! (k mod 8)"

definition late_draws :: random_source where
  "late_draws k = (if k < 4 then 9 / 10 else 1 / 4)"

definition cheng_late_draws :: random_source where
  "cheng_late_draws k = [99 / 100, 1 / 2, 1 / 2, 1 / 1000] ! (k mod 4)"

definition cheng_rejected_draws :: random_source where
  "cheng_rejected_draws k = [99 / 100, 1 / 2] ! (k mod 2)"

definition demo_calculator :: calculator where
  "demo_calculator = \<lparr>alpha = 1, beta = 1, monteCarloSamples = 2\<rparr>"

definition demo_dataA :: "observation list" where
  "demo_dataA = [\<lparr>successes = 0, trials = 1\<rparr>, \<lparr>successes = 0, trials = 0\<rparr>,
                 \<lparr>successes = 5, trials = 7\<rparr>]"

definition demo_dataB :: "observation list" where
  "demo_dataB = [\<lparr>successes = 0, trials = 1\<rparr>, \<lparr>successes = 0, trials = 0\<rparr>]"

text \<open>The records the sequential test returns on the inputs above.\<close>

definition demo_steps :: "sequentialStep list" where
  "demo_steps =
     [\<lparr>step = 1, probBGreater = Num (1 / 2),
       expectedLoss = \<lparr>lossA = Num (1 / 15), lossB = Num (1 / 15), probBGreater = Num (1 / 2)\<rparr>,
       posteriorA = \<lparr>alpha = 1, beta = 2\<rparr>, posteriorB = \<lparr>alpha = 1, beta = 2\<rparr>,
       shouldStop = False\<rparr>,
      \<lparr>step = 2, probBGreater = Num (1 / 2),
       expectedLoss = \<lparr>lossA = Num (250 / 502503), lossB = Num (250 / 502503),
                       probBGreater = Num (1 / 2)\<rparr>,
       posteriorA = \<lparr>alpha = 1, beta = 1\<rparr>, posteriorB = \<lparr>alpha = 1, beta = 1\<rparr>,
       shouldStop = False\<rparr>]"

section \<open>Properties of the posterior\<close>

text \<open>
  C2, as stated, fails: \<open>calculatePosterior\<close> has no check and no \<open>throw\<close>. On the
  invalid observation of 5 successes in 3 trials, with the default prior \<open>(1, 1)\<close>, the
  caller receives the parameter pair \<open>(6, -1)\<close>.
\<close>

theorem C2_invalid_observation_returns_pair:
  "invalidObservation 5 3 \<and>
   calculatePosterior \<lparr>alpha = 1, beta = 1, monteCarloSamples = 10000\<rparr> 5 3 None None
     = \<lparr>alpha = 6, beta = -1\<rparr>"
  by (simp add: invalidObservation_def calculatePosterior_def)

text \<open>
  C2, amended: the posterior computation validates nothing. Also on an invalid observation
  (trials below successes, or a negative count) it returns the pair
  \<open>(alpha0 + successes, beta0 + (trials - successes))\<close>, whose second component is below
  the prior's \<open>beta0\<close> when trials are below successes.
\<close>

theorem C2_no_validation:
  assumes "invalidObservation s t"
  shows "calculatePosterior this s t None None
           = \<lparr>alpha = alpha this + s, beta = beta this + (t - s)\<rparr>
         \<and> calculatePosterior this s t (Some a0) (Some b0)
           = \<lparr>alpha = a0 + s, beta = b0 + (t - s)\<rparr>
         \<and> (t < s \<longrightarrow> beta (calculatePosterior this s t None None) < beta this)"
  by (simp add: calculatePosterior_def)

theorem C2_no_validation_witness:
  "invalidObservation 5 3 \<and>
   calculatePosterior \<lparr>alpha = 1, beta = 1, monteCarloSamples = 10000\<rparr> 5 3 None None
     = \<lparr>alpha = 6, beta = -1\<rparr> \<and>
   beta (calculatePosterior \<lparr>alpha = 1, beta = 1, monteCarloSamples = 10000\<rparr> 5 3 None None) < 1"
proof -
  have h: "invalidObservation 5 3"
    by (simp add: invalidObservation_def)
  show ?thesis
    using h C2_no_validation [OF h, of "\<lparr>alpha = 1, beta = 1, monteCarloSamples = 10000\<rparr>" 1 1]
    by simp
qed

section \<open>Boundary values of the density and the distribution function\<close>

text \<open>
  C9: for all shape parameters, \<open>betaPDF\<close> is \<open>0\<close> for every \<open>x\<close> outside the open
  interval \<open>(0, 1)\<close>, the end points included, and \<open>betaCDF\<close> is \<open>0\<close> for \<open>x \<le> 0\<close> and
  \<open>1\<close> for \<open>x \<ge> 1\<close>: the guards return before any logarithm is taken.
\<close>

theorem C9_boundary_values:
  "(x \<le> 0 \<or> 1 \<le> x \<longrightarrow> betaPDF x \<alpha> \<beta> = 0) \<and>
   (x \<le> 0 \<longrightarrow> betaCDF x \<alpha> \<beta> = 0) \<and>
   (1 \<le> x \<longrightarrow> betaCDF x \<alpha> \<beta> = 1)"
  by (simp add: betaPDF_def betaCDF_def)

text \<open>The boundary values at \<open>x = 0\<close>, \<open>x = 1\<close> and outside \<open>[0, 1]\<close>, shapes \<open>(2, 3)\<close>.\<close>

theorem C9_boundary_values_witness:
  "betaPDF 0 2 3 = 0 \<and> betaCDF 0 2 3 = 0 \<and> betaPDF 1 2 3 = 0 \<and> betaCDF 1 2 3 = 1 \<and>
   betaPDF (- 1 / 2) 2 3 = 0 \<and> betaCDF (- 1 / 2) 2 3 = 0 \<and>
   betaPDF (3 / 2) 2 3 = 0 \<and> betaCDF (3 / 2) 2 3 = 1"
  using C9_boundary_values [of 0 2 3] C9_boundary_values [of 1 2 3]
    C9_boundary_values [of "- 1 / 2" 2 3] C9_boundary_values [of "3 / 2" 2 3]
  by simp

section \<open>Sample count zero\<close>

lemma monteCarloSample_zero: "monteCarloSample posterior 0 rnd k = Some ([], k)"
  by (simp add: monteCarloSample_def)

text \<open>
  C7, as stated, fails: with \<open>monteCarloSamples = 0\<close> no sample is drawn, the counting
  loop does not run, and the function returns \<open>0 / 0\<close>, that is \<open>NaN\<close>, as an ordinary
  value. No error is signalled.
\<close>

theorem C7_zero_samples_returns_NaN:
  "calculateProbabilityBGreaterThanAMonteCarlo
     \<lparr>alpha = 1, beta = 1, monteCarloSamples = 0\<rparr>
     \<lparr>alpha = 151, beta = 851\<rparr> \<lparr>alpha = 181, beta = 821\<rparr> (\<lambda>k. 1 / 2) 0
   = Some (NaN, 0)"
  by (simp add: calculateProbabilityBGreaterThanAMonteCarlo_def monteCarloSample_zero js_div_def)

text \<open>
  C7, amended: when the configured sample count is \<open>0\<close>, the Monte Carlo
  superiority-probability computation signals no error. For every pair of posteriors and
  every sequence of draws it returns \<open>NaN\<close>, the value of \<open>0 / 0\<close>, without drawing.
\<close>

theorem C7_zero_samples_no_error:
  assumes "monteCarloSamples this = 0"
  shows "calculateProbabilityBGreaterThanAMonteCarlo this postA postB rnd k = Some (NaN, k)"
  using assms
  by (simp add: calculateProbabilityBGreaterThanAMonteCarlo_def monteCarloSample_zero js_div_def)

theorem C7_zero_samples_no_error_witness:
  "monteCarloSamples \<lparr>alpha = 1, beta = 1, monteCarloSamples = 0\<rparr> = 0 \<and>
   calculateProbabilityBGreaterThanAMonteCarlo \<lparr>alpha = 1, beta = 1, monteCarloSamples = 0\<rparr>
     \<lparr>alpha = 51, beta = 51\<rparr> \<lparr>alpha = 51, beta = 51\<rparr> (\<lambda>k. 1 / 4) 7 = Some (NaN, 7)"
  using C7_zero_samples_no_error
    [of "\<lparr>alpha = 1, beta = 1, monteCarloSamples = 0\<rparr>"
        "\<lparr>alpha = 51, beta = 51\<rparr>" "\<lparr>alpha = 51, beta = 51\<rparr>" "\<lambda>k. 1 / 4" 7]
  by simp

section \<open>Evaluating the samplers on concrete draws\<close>

lemma exp_4_le_81: "exp (4::real) \<le> 81"
proof -
  have "exp (2::real) = exp 1 * exp 1" by (simp flip: exp_add)
  also have "\<dots> \<le> 3 * 3" by (intro mult_mono exp_le) simp_all
  finally have e2: "exp (2::real) \<le> 9" by simp
  have "exp (4::real) = exp 2 * exp 2" by (simp flip: exp_add)
  also have "\<dots> \<le> 9 * 9" by (intro mult_mono e2) simp_all
  finally show ?thesis by simp
qed

lemma ln_small_le:
  fixes x :: real
  assumes "0 < x" and "x \<le> 1 / 81"
  shows "ln x \<le> - 4"
proof -
  have "exp (ln x) * exp 4 \<le> (1 / 81) * 81"
    using assms exp_4_le_81 by (intro mult_mono) simp_all
  then have "exp (ln x + 4) \<le> exp 0"
    by (simp add: exp_add)
  then have "ln x + 4 \<le> 0"
    by (simp only: exp_le_cancel_iff)
  then show ?thesis by simp
qed

lemma sampleBetaCheng_loop_accept:
  assumes "rnd k = u1" and "rnd (k + 1) = u2"
    and "\<gamma> * ln (\<gamma> / (b + a * exp (l * ln (u1 / (1 - u1)))))
             + \<mu> * (l * ln (u1 / (1 - u1))) - 1.3862944
           \<ge> ln (u1 * u1 * u2)"
  shows "sampleBetaCheng_loop \<alpha> a b \<gamma> l \<mu> rnd k =
           Some (if \<alpha> = a then a * exp (l * ln (u1 / (1 - u1))) / (b + a * exp (l * ln (u1 / (1 - u1))))
                 else b / (b + a * exp (l * ln (u1 / (1 - u1)))), k + 2)"
  using assms by (subst sampleBetaCheng_loop.simps) (simp add: Let_def)

lemma sampleBetaCheng_1_2:
  "sampleBetaCheng 1 2 rnd k = sampleBetaCheng_loop 1 1 2 3 1 2 rnd k"
  by (simp add: sampleBetaCheng_def Let_def)

lemma sampleBeta_1_2_half:
  assumes "rnd k = 1 / 2" and "rnd (k + 1) = 1 / 1000"
  shows "sampleBeta 1 2 rnd k = Some (1 / 3, k + 2)"
proof -
  have "ln (1 / 4000 :: real) \<le> - 4" by (rule ln_small_le) simp_all
  then have t: "3 * ln (3 / (2 + 1 * exp (1 * ln ((1 / 2) / (1 - 1 / 2)))))
             + 2 * (1 * ln ((1 / 2) / (1 - 1 / 2))) - 1.3862944
           \<ge> ln ((1 / 2) * (1 / 2) * (1 / 1000 :: real))"
    by simp
  show ?thesis
    using sampleBetaCheng_loop_accept [OF assms t, of 1]
    by (simp add: sampleBeta_def sampleBetaCheng_1_2)
qed

lemma sampleBeta_1_2_third:
  assumes "rnd k = 1 / 3" and "rnd (k + 1) = 1 / 1000"
  shows "sampleBeta 1 2 rnd k = Some (1 / 5, k + 2)"
proof -
  have r: "ln (1 / 9000 :: real) \<le> - 4" by (rule ln_small_le) simp_all
  have l1: "0 \<le> ln (6 / 5 :: real)" by simp
  have l2: "ln (1 / 2 :: real) \<ge> - 1"
  proof -
    have "ln (1 / 2 :: real) = - ln 2" by (simp add: ln_div)
    then show ?thesis using ln_2_less_1 by simp
  qed
  have q: "(1 / 3) / (1 - 1 / 3) = (1 / 2 :: real)" by simp
  have e: "exp (ln (1 / 2 :: real)) = 1 / 2" by simp
  have w: "3 / (2 + 1 / 2) = (6 / 5 :: real)" by simp
  have p: "(1 / 3) * (1 / 3) * (1 / 1000) = (1 / 9000 :: real)" by simp
  have t: "3 * ln (3 / (2 + 1 * exp (1 * ln ((1 / 3) / (1 - 1 / 3)))))
             + 2 * (1 * ln ((1 / 3) / (1 - 1 / 3))) - 1.3862944
           \<ge> ln ((1 / 3) * (1 / 3) * (1 / 1000 :: real))"
  proof -
    have c: "(1.3862944 :: real) \<le> 2" by simp
    show ?thesis unfolding q mult_1 e w p using r l1 l2 c by linarith
  qed
  have v: "1 * exp (1 * ln ((1 / 3) / (1 - 1 / 3))) = (1 / 2 :: real)"
    unfolding q mult_1 e by simp
  show ?thesis
    using sampleBetaCheng_loop_accept [OF assms t, of 1]
    unfolding v
    by (simp add: sampleBeta_def sampleBetaCheng_1_2)
qed

lemma sampleBetaRejection_accept:
  assumes "rnd k = u1" and "rnd (k + 1) = u2"
    and "u1 powr (1 / \<alpha>) + u2 powr (1 / \<beta>) \<le> 1"
  shows "sampleBetaRejection \<alpha> \<beta> rnd k =
     Some (u1 powr (1 / \<alpha>) / (u1 powr (1 / \<alpha>) + u2 powr (1 / \<beta>)), k + 2)"
  using assms by (subst sampleBetaRejection.simps) (simp add: Let_def)

lemma sampleBeta_1_1_half:
  assumes "rnd k = 1 / 2" and "rnd (k + 1) = 1 / 1000"
  shows "sampleBeta 1 1 rnd k = Some (500 / 501, k + 2)"
proof -
  have t: "(1 / 2) powr (1 / 1) + (1 / 1000) powr (1 / 1) \<le> (1::real)" by simp
  show ?thesis
    using sampleBetaRejection_accept [OF assms t]
    by (simp add: sampleBeta_def)
qed

lemma sampleBeta_1_1_third:
  assumes "rnd k = 1 / 3" and "rnd (k + 1) = 1 / 1000"
  shows "sampleBeta 1 1 rnd k = Some (1000 / 1003, k + 2)"
proof -
  have t: "(1 / 3) powr (1 / 1) + (1 / 1000) powr (1 / 1) \<le> (1::real)" by simp
  show ?thesis
    using sampleBetaRejection_accept [OF assms t]
    by (simp add: sampleBeta_def)
qed

lemma demo_draws_values:
  "demo_draws (8 * j) = 1 / 2" "demo_draws (8 * j + 1) = 1 / 1000"
  "demo_draws (8 * j + 2) = 1 / 3" "demo_draws (8 * j + 3) = 1 / 1000"
  "demo_draws (8 * j + 4) = 1 / 3" "demo_draws (8 * j + 5) = 1 / 1000"
  "demo_draws (8 * j + 6) = 1 / 2" "demo_draws (8 * j + 7) = 1 / 1000"
proof -
  have m: "\<And>i. (8 * j + i) mod 8 = i mod 8" by simp
  have m0: "(8 * j) mod 8 = 0" by simp
  show "demo_draws (8 * j) = 1 / 2" unfolding demo_draws_def m0 by simp
  show "demo_draws (8 * j + 1) = 1 / 1000" unfolding demo_draws_def m by simp
  show "demo_draws (8 * j + 2) = 1 / 3" unfolding demo_draws_def m by simp
  show "demo_draws (8 * j + 3) = 1 / 1000" unfolding demo_draws_def m by simp
  show "demo_draws (8 * j + 4) = 1 / 3" unfolding demo_draws_def m by simp
  show "demo_draws (8 * j + 5) = 1 / 1000" unfolding demo_draws_def m by simp
  show "demo_draws (8 * j + 6) = 1 / 2" unfolding demo_draws_def m by simp
  show "demo_draws (8 * j + 7) = 1 / 1000" unfolding demo_draws_def m by simp
qed

lemma monteCarloSample_2:
  assumes "sampleBeta (alpha p) (beta p) rnd k = Some (x, k1)"
    and "sampleBeta (alpha p) (beta p) rnd k1 = Some (y, k2)"
  shows "monteCarloSample p 2 rnd k = Some ([x, y], k2)"
  using assms by (simp add: monteCarloSample_def numeral_2_eq_2)

lemma nat_arith_8:
  "8 * j + 2 + 1 = 8 * j + (3::nat)" "8 * j + 4 + 1 = 8 * j + (5::nat)"
  "8 * j + 6 + 1 = 8 * j + (7::nat)" "8 * j + 2 + 2 = 8 * j + (4::nat)"
  "8 * j + 4 + 2 = 8 * j + (6::nat)" "8 * j + 6 + 2 = 8 * j + (8::nat)"
  by simp_all

lemma demo_samples_1_2:
  shows "monteCarloSample \<lparr>alpha = 1, beta = 2\<rparr> 2 demo_draws (8 * j) = Some ([1 / 3, 1 / 5], 8 * j + 4)"
    and "monteCarloSample \<lparr>alpha = 1, beta = 2\<rparr> 2 demo_draws (8 * j + 4) = Some ([1 / 5, 1 / 3], 8 * j + 8)"
proof -
  have a: "sampleBeta 1 2 demo_draws (8 * j) = Some (1 / 3, 8 * j + 2)"
    by (rule sampleBeta_1_2_half) (rule demo_draws_values)+
  have b: "sampleBeta 1 2 demo_draws (8 * j + 2) = Some (1 / 5, 8 * j + 2 + 2)"
    by (rule sampleBeta_1_2_third) (simp_all only: nat_arith_8 demo_draws_values)
  have c: "sampleBeta 1 2 demo_draws (8 * j + 4) = Some (1 / 5, 8 * j + 4 + 2)"
    by (rule sampleBeta_1_2_third) (simp_all only: nat_arith_8 demo_draws_values)
  have d: "sampleBeta 1 2 demo_draws (8 * j + 6) = Some (1 / 3, 8 * j + 6 + 2)"
    by (rule sampleBeta_1_2_half) (simp_all only: nat_arith_8 demo_draws_values)
  show "monteCarloSample \<lparr>alpha = 1, beta = 2\<rparr> 2 demo_draws (8 * j) = Some ([1 / 3, 1 / 5], 8 * j + 4)"
    using monteCarloSample_2 [of "\<lparr>alpha = 1, beta = 2\<rparr>" demo_draws "8 * j" "1 / 3" "8 * j + 2" "1 / 5" "8 * j + 2 + 2"] a b
    by (simp only: nat_arith_8 betaParams.simps)
  show "monteCarloSample \<lparr>alpha = 1, beta = 2\<rparr> 2 demo_draws (8 * j + 4) = Some ([1 / 5, 1 / 3], 8 * j + 8)"
    using monteCarloSample_2 [of "\<lparr>alpha = 1, beta = 2\<rparr>" demo_draws "8 * j + 4" "1 / 5" "8 * j + 4 + 2" "1 / 3" "8 * j + 6 + 2"] c d
    by (simp only: nat_arith_8 betaParams.simps)
qed

lemma demo_samples_1_1:
  shows "monteCarloSample \<lparr>alpha = 1, beta = 1\<rparr> 2 demo_draws (8 * j) = Some ([500 / 501, 1000 / 1003], 8 * j + 4)"
    and "monteCarloSample \<lparr>alpha = 1, beta = 1\<rparr> 2 demo_draws (8 * j + 4) = Some ([1000 / 1003, 500 / 501], 8 * j + 8)"
proof -
  have a: "sampleBeta 1 1 demo_draws (8 * j) = Some (500 / 501, 8 * j + 2)"
    by (rule sampleBeta_1_1_half) (rule demo_draws_values)+
  have b: "sampleBeta 1 1 demo_draws (8 * j + 2) = Some (1000 / 1003, 8 * j + 2 + 2)"
    by (rule sampleBeta_1_1_third) (simp_all only: nat_arith_8 demo_draws_values)
  have c: "sampleBeta 1 1 demo_draws (8 * j + 4) = Some (1000 / 1003, 8 * j + 4 + 2)"
    by (rule sampleBeta_1_1_third) (simp_all only: nat_arith_8 demo_draws_values)
  have d: "sampleBeta 1 1 demo_draws (8 * j + 6) = Some (500 / 501, 8 * j + 6 + 2)"
    by (rule sampleBeta_1_1_half) (simp_all only: nat_arith_8 demo_draws_values)
  show "monteCarloSample \<lparr>alpha = 1, beta = 1\<rparr> 2 demo_draws (8 * j) = Some ([500 / 501, 1000 / 1003], 8 * j + 4)"
    using monteCarloSample_2 [of "\<lparr>alpha = 1, beta = 1\<rparr>" demo_draws "8 * j" "500 / 501" "8 * j + 2" "1000 / 1003" "8 * j + 2 + 2"] a b
    by (simp only: nat_arith_8 betaParams.simps)
  show "monteCarloSample \<lparr>alpha = 1, beta = 1\<rparr> 2 demo_draws (8 * j + 4) = Some ([1000 / 1003, 500 / 501], 8 * j + 8)"
    using monteCarloSample_2 [of "\<lparr>alpha = 1, beta = 1\<rparr>" demo_draws "8 * j + 4" "1000 / 1003" "8 * j + 4 + 2" "500 / 501" "8 * j + 6 + 2"] c d
    by (simp only: nat_arith_8 betaParams.simps)
qed

lemma upt_0_2: "[0..<2] = [0, 1]"
  by (simp add: upt_rec)

lemma probability_2:
  assumes "monteCarloSamples this = 2"
    and "monteCarloSample postA 2 rnd k = Some ([a0, a1], k1)"
    and "monteCarloSample postB 2 rnd k1 = Some ([b0, b1], k2)"
  shows "calculateProbabilityBGreaterThanAMonteCarlo this postA postB rnd k
           = Some (Num (real ((if b0 > a0 then 1 else 0) + (if b1 > a1 then 1 else (0::nat))) / 2), k2)"
  using assms
  by (simp add: calculateProbabilityBGreaterThanAMonteCarlo_def upt_0_2 js_div_def)

lemma expectedLoss_2:
  assumes "monteCarloSamples this = 2"
    and "calculateProbabilityBGreaterThanAMonteCarlo this postA postB rnd k = Some (p, k1)"
    and "monteCarloSample postA 2 rnd k1 = Some ([a0, a1], k2)"
    and "monteCarloSample postB 2 rnd k2 = Some ([b0, b1], k3)"
  shows "calculateExpectedLoss this postA postB rnd k
           = Some (\<lparr>lossA = Num ((max 0 (b0 - a0) + max 0 (b1 - a1)) / 2),
                    lossB = Num ((max 0 (a0 - b0) + max 0 (a1 - b1)) / 2),
                    probBGreater = p\<rparr>, k3)"
  using assms
  by (simp add: calculateExpectedLoss_def upt_0_2 js_div_def)

lemma demo_probability_1_2:
  "calculateProbabilityBGreaterThanAMonteCarlo demo_calculator
     \<lparr>alpha = 1, beta = 2\<rparr> \<lparr>alpha = 1, beta = 2\<rparr> demo_draws (8 * j) = Some (Num (1 / 2), 8 * j + 8)"
  using probability_2 [OF _ demo_samples_1_2, of demo_calculator j]
  by (simp add: demo_calculator_def)

lemma demo_probability_1_1:
  "calculateProbabilityBGreaterThanAMonteCarlo demo_calculator
     \<lparr>alpha = 1, beta = 1\<rparr> \<lparr>alpha = 1, beta = 1\<rparr> demo_draws (8 * j) = Some (Num (1 / 2), 8 * j + 8)"
  using probability_2 [OF _ demo_samples_1_1, of demo_calculator j]
  by (simp add: demo_calculator_def)

lemma eight_Suc: "8 * j + 8 = 8 * Suc j" "8 * Suc j + 4 = 8 * j + 12" "8 * Suc j + 8 = 8 * j + 16"
  by simp_all

lemma demo_expectedLoss_1_2:
  "calculateExpectedLoss demo_calculator
     \<lparr>alpha = 1, beta = 2\<rparr> \<lparr>alpha = 1, beta = 2\<rparr> demo_draws (8 * j)
   = Some (\<lparr>lossA = Num (1 / 15), lossB = Num (1 / 15), probBGreater = Num (1 / 2)\<rparr>, 8 * j + 16)"
proof -
  have n: "monteCarloSamples demo_calculator = 2" by (simp add: demo_calculator_def)
  have p: "calculateProbabilityBGreaterThanAMonteCarlo demo_calculator
     \<lparr>alpha = 1, beta = 2\<rparr> \<lparr>alpha = 1, beta = 2\<rparr> demo_draws (8 * j) = Some (Num (1 / 2), 8 * Suc j)"
    using demo_probability_1_2 [of j] by (simp only: eight_Suc)
  show ?thesis
    using expectedLoss_2 [OF n p demo_samples_1_2 [of "Suc j"]]
    by (simp only: eight_Suc) simp
qed

lemma demo_expectedLoss_1_1:
  "calculateExpectedLoss demo_calculator
     \<lparr>alpha = 1, beta = 1\<rparr> \<lparr>alpha = 1, beta = 1\<rparr> demo_draws (8 * j)
   = Some (\<lparr>lossA = Num (250 / 502503), lossB = Num (250 / 502503), probBGreater = Num (1 / 2)\<rparr>, 8 * j + 16)"
proof -
  have n: "monteCarloSamples demo_calculator = 2" by (simp add: demo_calculator_def)
  have p: "calculateProbabilityBGreaterThanAMonteCarlo demo_calculator
     \<lparr>alpha = 1, beta = 1\<rparr> \<lparr>alpha = 1, beta = 1\<rparr> demo_draws (8 * j) = Some (Num (1 / 2), 8 * Suc j)"
    using demo_probability_1_1 [of j] by (simp only: eight_Suc)
  show ?thesis
    using expectedLoss_2 [OF n p demo_samples_1_1 [of "Suc j"]]
    by (simp only: eight_Suc) simp
qed

lemma demo_run:
  "sequentialTest demo_calculator demo_dataA demo_dataB 0.95 demo_draws 0 = Some (demo_steps, 48)"
proof -
  have c: "alpha demo_calculator = 1" "beta demo_calculator = 1"
    by (simp_all add: demo_calculator_def)
  have p1: "calculateProbabilityBGreaterThanAMonteCarlo demo_calculator
     \<lparr>alpha = 1, beta = 2\<rparr> \<lparr>alpha = 1, beta = 2\<rparr> demo_draws 0 = Some (Num (1 / 2), 8)"
    using demo_probability_1_2 [of 0] by simp
  have l1: "calculateExpectedLoss demo_calculator
     \<lparr>alpha = 1, beta = 2\<rparr> \<lparr>alpha = 1, beta = 2\<rparr> demo_draws 8
   = Some (\<lparr>lossA = Num (1 / 15), lossB = Num (1 / 15), probBGreater = Num (1 / 2)\<rparr>, 24)"
    using demo_expectedLoss_1_2 [of 1] by simp
  have p2: "calculateProbabilityBGreaterThanAMonteCarlo demo_calculator
     \<lparr>alpha = 1, beta = 1\<rparr> \<lparr>alpha = 1, beta = 1\<rparr> demo_draws 24 = Some (Num (1 / 2), 32)"
    using demo_probability_1_1 [of 3] by simp
  have l2: "calculateExpectedLoss demo_calculator
     \<lparr>alpha = 1, beta = 1\<rparr> \<lparr>alpha = 1, beta = 1\<rparr> demo_draws 32
   = Some (\<lparr>lossA = Num (250 / 502503), lossB = Num (250 / 502503), probBGreater = Num (1 / 2)\<rparr>, 48)"
    using demo_expectedLoss_1_1 [of 4] by simp
  show ?thesis
    unfolding sequentialTest_def
    apply (subst sequentialTest_loop.simps)
    apply (simp add: demo_dataA_def demo_dataB_def calculatePosterior_def c p1 l1)
    apply (subst sequentialTest_loop.simps)
    apply (simp add: demo_dataA_def demo_dataB_def calculatePosterior_def c p2 l2)
    apply (subst sequentialTest_loop.simps)
    apply (simp add: demo_steps_def Let_def)
    done
qed

section \<open>The sampling loops\<close>

lemma sampleBetaRejection_step:
  "sampleBetaRejection \<alpha> \<beta> rnd k =
     (if rejection_accepts \<alpha> \<beta> rnd k then Some (rejection_value \<alpha> \<beta> rnd k, k + 2)
      else sampleBetaRejection \<alpha> \<beta> rnd (k + 2))"
  by (subst sampleBetaRejection.simps) (simp add: Let_def rejection_accepts_def rejection_value_def)

lemma sampleBetaCheng_loop_step:
  "sampleBetaCheng_loop \<alpha> a b \<gamma> l \<mu> rnd k =
     (if cheng_accepts a b \<gamma> l \<mu> rnd k then Some (cheng_value \<alpha> a b l rnd k, k + 2)
      else sampleBetaCheng_loop \<alpha> a b \<gamma> l \<mu> rnd (k + 2))"
  by (subst sampleBetaCheng_loop.simps) (simp add: Let_def cheng_accepts_def cheng_value_def)

lemma rejection_first_accept:
  assumes "rejection_accepts \<alpha> \<beta> rnd (k + 2 * m)"
    and "\<forall>i<m. \<not> rejection_accepts \<alpha> \<beta> rnd (k + 2 * i)"
  shows "sampleBetaRejection \<alpha> \<beta> rnd k = Some (rejection_value \<alpha> \<beta> rnd (k + 2 * m), k + 2 * m + 2)"
  using assms
proof (induction m arbitrary: k)
  case 0
  then show ?case using sampleBetaRejection_step [of \<alpha> \<beta> rnd k] by simp
next
  case (Suc m)
  have nk: "\<not> rejection_accepts \<alpha> \<beta> rnd k" using Suc.prems(2) by force
  have e: "\<And>i. k + 2 + 2 * i = k + 2 * Suc i" by simp
  have a: "rejection_accepts \<alpha> \<beta> rnd (k + 2 + 2 * m)" using Suc.prems(1) by (simp only: e)
  have b: "\<forall>i<m. \<not> rejection_accepts \<alpha> \<beta> rnd (k + 2 + 2 * i)"
    using Suc.prems(2) by (simp only: e) auto
  show ?case
    using Suc.IH [OF a b] nk sampleBetaRejection_step [of \<alpha> \<beta> rnd k] by (simp only: e) simp
qed

lemma rejection_returns_accepts:
  assumes "sampleBetaRejection \<alpha> \<beta> rnd k = Some y"
  shows "\<exists>m. rejection_accepts \<alpha> \<beta> rnd (k + 2 * m)"
proof (rule sampleBetaRejection.raw_induct
         [where P = "\<lambda>\<alpha> \<beta> rnd k y. \<exists>m. rejection_accepts \<alpha> \<beta> rnd (k + 2 * m)", OF _ assms])
  fix f :: "real \<Rightarrow> real \<Rightarrow> random_source \<Rightarrow> nat \<Rightarrow> (real \<times> nat) option"
    and \<alpha> \<beta> rnd k y
  assume IH: "\<And>\<alpha> \<beta> rnd k y. f \<alpha> \<beta> rnd k = Some y \<Longrightarrow> \<exists>m. rejection_accepts \<alpha> \<beta> rnd (k + 2 * m)"
    and step: "(let u1 = rnd k; u2 = rnd (k + 1); x = u1 powr (1 / \<alpha>); y = u2 powr (1 / \<beta>)
                in if x + y \<le> 1 then Some (x / (x + y), k + 2) else f \<alpha> \<beta> rnd (k + 2)) = Some y"
  show "\<exists>m. rejection_accepts \<alpha> \<beta> rnd (k + 2 * m)"
  proof (cases "rejection_accepts \<alpha> \<beta> rnd k")
    case True
    then have "rejection_accepts \<alpha> \<beta> rnd (k + 2 * 0)" by simp
    then show ?thesis by blast
  next
    case False
    with step have "f \<alpha> \<beta> rnd (k + 2) = Some y" by (simp add: Let_def rejection_accepts_def)
    from IH [OF this] obtain m where "rejection_accepts \<alpha> \<beta> rnd (k + 2 + 2 * m)" by blast
    then have "rejection_accepts \<alpha> \<beta> rnd (k + 2 * Suc m)" by (simp add: add.assoc)
    then show ?thesis by blast
  qed
qed

lemma rejection_never_accepts:
  assumes "\<forall>m. \<not> rejection_accepts \<alpha> \<beta> rnd (k + 2 * m)"
  shows "sampleBetaRejection \<alpha> \<beta> rnd k = None"
proof (cases "sampleBetaRejection \<alpha> \<beta> rnd k")
  case None
  then show ?thesis .
next
  case (Some y)
  from rejection_returns_accepts [OF this] assms show ?thesis by blast
qed

lemma cheng_first_accept:
  assumes "cheng_accepts a b \<gamma> l \<mu> rnd (k + 2 * m)"
    and "\<forall>i<m. \<not> cheng_accepts a b \<gamma> l \<mu> rnd (k + 2 * i)"
  shows "sampleBetaCheng_loop \<alpha> a b \<gamma> l \<mu> rnd k
           = Some (cheng_value \<alpha> a b l rnd (k + 2 * m), k + 2 * m + 2)"
  using assms
proof (induction m arbitrary: k)
  case 0
  then show ?case using sampleBetaCheng_loop_step [of \<alpha> a b \<gamma> l \<mu> rnd k] by simp
next
  case (Suc m)
  have nk: "\<not> cheng_accepts a b \<gamma> l \<mu> rnd k" using Suc.prems(2) by force
  have e: "\<And>i. k + 2 + 2 * i = k + 2 * Suc i" by simp
  have a: "cheng_accepts a b \<gamma> l \<mu> rnd (k + 2 + 2 * m)" using Suc.prems(1) by (simp only: e)
  have b: "\<forall>i<m. \<not> cheng_accepts a b \<gamma> l \<mu> rnd (k + 2 + 2 * i)"
    using Suc.prems(2) by (simp only: e) auto
  show ?case
    using Suc.IH [OF a b] nk sampleBetaCheng_loop_step [of \<alpha> a b \<gamma> l \<mu> rnd k]
    by (simp only: e) simp
qed

lemma cheng_returns_accepts:
  assumes "sampleBetaCheng_loop \<alpha> a b \<gamma> l \<mu> rnd k = Some y"
  shows "\<exists>m. cheng_accepts a b \<gamma> l \<mu> rnd (k + 2 * m)"
proof (rule sampleBetaCheng_loop.raw_induct
         [where P = "\<lambda>\<alpha> a b \<gamma> l \<mu> rnd k y. \<exists>m. cheng_accepts a b \<gamma> l \<mu> rnd (k + 2 * m)",
          OF _ assms])
  fix f :: "real \<Rightarrow> real \<Rightarrow> real \<Rightarrow> real \<Rightarrow> real \<Rightarrow> real \<Rightarrow> random_source \<Rightarrow> nat
              \<Rightarrow> (real \<times> nat) option"
    and \<alpha> a b \<gamma> l \<mu> rnd k y
  assume IH: "\<And>\<alpha> a b \<gamma> l \<mu> rnd k y. f \<alpha> a b \<gamma> l \<mu> rnd k = Some y
                \<Longrightarrow> \<exists>m. cheng_accepts a b \<gamma> l \<mu> rnd (k + 2 * m)"
    and step: "(let u1 = rnd k; u2 = rnd (k + 1); v = l * ln (u1 / (1 - u1)); w = a * exp v
                in if ln (u1 * u1 * u2) \<le> \<gamma> * ln (\<gamma> / (b + w)) + \<mu> * v - 1.3862944
                   then Some (if \<alpha> = a then w / (b + w) else b / (b + w), k + 2)
                   else f \<alpha> a b \<gamma> l \<mu> rnd (k + 2)) = Some y"
  show "\<exists>m. cheng_accepts a b \<gamma> l \<mu> rnd (k + 2 * m)"
  proof (cases "cheng_accepts a b \<gamma> l \<mu> rnd k")
    case True
    then have "cheng_accepts a b \<gamma> l \<mu> rnd (k + 2 * 0)" by simp
    then show ?thesis by blast
  next
    case False
    with step have "f \<alpha> a b \<gamma> l \<mu> rnd (k + 2) = Some y"
      by (simp add: Let_def cheng_accepts_def)
    from IH [OF this] obtain m where "cheng_accepts a b \<gamma> l \<mu> rnd (k + 2 + 2 * m)" by blast
    then have "cheng_accepts a b \<gamma> l \<mu> rnd (k + 2 * Suc m)" by (simp add: add.assoc)
    then show ?thesis by blast
  qed
qed

lemma cheng_never_accepts:
  assumes "\<forall>m. \<not> cheng_accepts a b \<gamma> l \<mu> rnd (k + 2 * m)"
  shows "sampleBetaCheng_loop \<alpha> a b \<gamma> l \<mu> rnd k = None"
proof (cases "sampleBetaCheng_loop \<alpha> a b \<gamma> l \<mu> rnd k")
  case None
  then show ?thesis .
next
  case (Some y)
  from cheng_returns_accepts [OF this] assms show ?thesis by blast
qed

text \<open>
  C8, as stated, fails: neither loop has a retry ceiling or a failure signal. With shapes
  \<open>(1, 1)\<close> and every draw equal to \<open>9/10\<close> the rejection loop never exits. With shapes
  \<open>(1/2, 7/2)\<close> (the prior \<open>(1/2, 1/2)\<close> after three failures) Cheng's set-up computes
  \<open>Math.sqrt(-4)\<close>, and the loop exits on no sequence of draws.
\<close>

theorem C8_sampling_loops_unbounded:
  "sampleBeta 1 1 (\<lambda>k. 9 / 10) 0 = None \<and> sampleBeta (1 / 2) (7 / 2) demo_draws 0 = None"
proof
  have "\<forall>m. \<not> rejection_accepts 1 1 (\<lambda>k. 9 / 10) (0 + 2 * m)"
    by (simp add: rejection_accepts_def)
  then have "sampleBetaRejection 1 1 (\<lambda>k. 9 / 10) 0 = None"
    by (rule rejection_never_accepts)
  then show "sampleBeta 1 1 (\<lambda>k. 9 / 10) 0 = None"
    by (simp add: sampleBeta_def)
  show "sampleBeta (1 / 2) (7 / 2) demo_draws 0 = None"
    by (simp add: sampleBeta_def sampleBetaCheng_def)
qed

text \<open>
  C8, amended: the sampling loops have no retry ceiling and signal no failure. Each loop
  draws pairs until one passes its acceptance test: it returns the value computed from
  the first accepted pair, having consumed the draws up to that pair, and it does not
  return when no pair is accepted.
\<close>

theorem C8_loops_return_at_first_accepted_pair:
  "(rejection_accepts \<alpha> \<beta> rnd (k + 2 * m)
      \<and> (\<forall>i<m. \<not> rejection_accepts \<alpha> \<beta> rnd (k + 2 * i))
    \<longrightarrow> sampleBetaRejection \<alpha> \<beta> rnd k
          = Some (rejection_value \<alpha> \<beta> rnd (k + 2 * m), k + 2 * m + 2))
   \<and> ((\<forall>i. \<not> rejection_accepts \<alpha> \<beta> rnd (k + 2 * i))
    \<longrightarrow> sampleBetaRejection \<alpha> \<beta> rnd k = None)
   \<and> (cheng_accepts a b \<gamma> l \<mu> rnd (k + 2 * m)
      \<and> (\<forall>i<m. \<not> cheng_accepts a b \<gamma> l \<mu> rnd (k + 2 * i))
    \<longrightarrow> sampleBetaCheng_loop \<alpha> a b \<gamma> l \<mu> rnd k
          = Some (cheng_value \<alpha> a b l rnd (k + 2 * m), k + 2 * m + 2))
   \<and> ((\<forall>i. \<not> cheng_accepts a b \<gamma> l \<mu> rnd (k + 2 * i))
    \<longrightarrow> sampleBetaCheng_loop \<alpha> a b \<gamma> l \<mu> rnd k = None)"
  using rejection_first_accept [of \<alpha> \<beta> rnd k m] rejection_never_accepts [of \<alpha> \<beta> rnd k]
    cheng_first_accept [of a b \<gamma> l \<mu> rnd k m \<alpha>] cheng_never_accepts [of a b \<gamma> l \<mu> rnd k \<alpha>]
  by blast

text \<open>
  The rejection loop returns at its third pair on \<open>late_draws\<close> and never on the
  constant \<open>9/10\<close>; Cheng's loop with the constants of the shapes \<open>(1, 2)\<close> returns at
  its second pair on \<open>cheng_late_draws\<close> and never on \<open>cheng_rejected_draws\<close>.
\<close>

lemma cheng_1_2_rejects:
  assumes "rnd k = 99 / 100" and "rnd (k + 1) = 1 / 2"
  shows "\<not> cheng_accepts 1 2 3 1 2 rnd k"
proof -
  have l3: "1 \<le> ln (3::real)"
    using exp_le by (simp add: ln_ge_iff)
  have a1: "ln (3 / 101 :: real) = ln 3 - ln 101"
    by (simp add: ln_div)
  have a2: "ln (99::real) \<le> ln 101"
    by simp
  have "ln (81::real) = 4 * ln 3"
    using ln_realpow [of "3::real" 4] by simp
  moreover have "ln (81::real) \<le> ln 101"
    by simp
  ultimately have a3: "4 * ln (3::real) \<le> ln 101"
    by simp
  have "ln (4::real) = 2 * ln 2"
    using ln_realpow [of "2::real" 2] by simp
  then have "ln (4::real) \<le> 2"
    using ln_2_less_1 by simp
  moreover have "ln (1 / 4 :: real) = - ln 4"
    by (simp add: ln_div)
  moreover have "ln (1 / 4 :: real) \<le> ln (9801 / 20000)"
    by (subst ln_le_cancel_iff) simp_all
  ultimately have r: "- 2 \<le> ln (9801 / 20000 :: real)"
    by linarith
  have c: "(1.3862944 :: real) > 1" by simp
  have t: "\<not> ln (9801 / 20000 :: real) \<le> 3 * ln (3 / 101) + 2 * ln 99 - 1.3862944"
    using l3 a1 a2 a3 r c by linarith
  have q: "(99 / 100) / (1 - 99 / 100) = (99::real)" by simp
  have e: "exp (ln (99::real)) = 99" by simp
  have w: "3 / (2 + 99) = (3 / 101 :: real)" by simp
  have p: "99 / 100 * (99 / 100) * (1 / 2) = (9801 / 20000 :: real)" by simp
  show ?thesis
    unfolding cheng_accepts_def Let_def assms q mult_1 e w p using t by simp
qed

lemma cheng_1_2_accepts:
  assumes "rnd k = 1 / 2" and "rnd (k + 1) = 1 / 1000"
  shows "cheng_accepts 1 2 3 1 2 rnd k" and "cheng_value 1 1 2 1 rnd k = 1 / 3"
proof -
  have "ln (1 / 4000 :: real) \<le> - 4" by (rule ln_small_le) simp_all
  then show "cheng_accepts 1 2 3 1 2 rnd k"
    unfolding cheng_accepts_def Let_def assms by simp
  show "cheng_value 1 1 2 1 rnd k = 1 / 3"
    unfolding cheng_value_def Let_def assms by simp
qed

theorem C8_loops_return_at_first_accepted_pair_witness:
  "sampleBetaRejection 1 1 late_draws 0 = Some (1 / 2, 6)
   \<and> sampleBetaRejection 1 1 (\<lambda>k. 9 / 10) 0 = None
   \<and> sampleBetaCheng_loop 1 1 2 3 1 2 cheng_late_draws 0 = Some (1 / 3, 4)
   \<and> sampleBetaCheng_loop 1 1 2 3 1 2 cheng_rejected_draws 0 = None"
proof (intro conjI)
  have acc: "rejection_accepts 1 1 late_draws (0 + 2 * 2)"
    by (simp add: rejection_accepts_def late_draws_def)
  have rej: "\<forall>i<2. \<not> rejection_accepts 1 1 late_draws (0 + 2 * i)"
  proof (intro allI impI)
    fix i :: nat assume "i < 2"
    then have "i = 0 \<or> i = 1" by auto
    then show "\<not> rejection_accepts 1 1 late_draws (0 + 2 * i)"
      by (auto simp: rejection_accepts_def late_draws_def)
  qed
  have val: "rejection_value 1 1 late_draws (0 + 2 * 2) = 1 / 2"
    by (simp add: rejection_value_def late_draws_def)
  show "sampleBetaRejection 1 1 late_draws 0 = Some (1 / 2, 6)"
    using C8_loops_return_at_first_accepted_pair
      [where \<alpha> = 1 and \<beta> = 1 and rnd = late_draws and k = 0 and m = 2] acc rej val
    by simp
  have never: "\<forall>i. \<not> rejection_accepts 1 1 (\<lambda>k. 9 / 10) (0 + 2 * i)"
    by (simp add: rejection_accepts_def)
  show "sampleBetaRejection 1 1 (\<lambda>k. 9 / 10) 0 = None"
    using C8_loops_return_at_first_accepted_pair
      [where \<alpha> = 1 and \<beta> = 1 and rnd = "\<lambda>k. 9 / 10" and k = 0] never
    by blast
  have cacc: "cheng_accepts 1 2 3 1 2 cheng_late_draws (0 + 2 * 1)"
    by (rule cheng_1_2_accepts) (simp_all add: cheng_late_draws_def)
  have cval: "cheng_value 1 1 2 1 cheng_late_draws (0 + 2 * 1) = 1 / 3"
    by (rule cheng_1_2_accepts) (simp_all add: cheng_late_draws_def)
  have "\<not> cheng_accepts 1 2 3 1 2 cheng_late_draws 0"
    by (rule cheng_1_2_rejects) (simp_all add: cheng_late_draws_def)
  then have crej: "\<forall>i<1. \<not> cheng_accepts 1 2 3 1 2 cheng_late_draws (0 + 2 * i)"
    by simp
  show "sampleBetaCheng_loop 1 1 2 3 1 2 cheng_late_draws 0 = Some (1 / 3, 4)"
    using C8_loops_return_at_first_accepted_pair
      [where a = 1 and b = 2 and \<gamma> = 3 and l = 1 and \<mu> = 2 and rnd = cheng_late_draws
         and k = 0 and m = 1 and \<alpha> = 1] cacc crej cval
    by simp
  have cnever: "\<forall>i. \<not> cheng_accepts 1 2 3 1 2 cheng_rejected_draws (0 + 2 * i)"
  proof
    fix i
    show "\<not> cheng_accepts 1 2 3 1 2 cheng_rejected_draws (0 + 2 * i)"
      by (rule cheng_1_2_rejects) (simp_all add: cheng_rejected_draws_def)
  qed
  show "sampleBetaCheng_loop 1 1 2 3 1 2 cheng_rejected_draws 0 = None"
    using C8_loops_return_at_first_accepted_pair
      [where a = 1 and b = 2 and \<gamma> = 3 and l = 1 and \<mu> = 2 and rnd = cheng_rejected_draws
         and k = 0 and \<alpha> = 1] cnever
    by blast
qed

section \<open>Monte Carlo estimates from the drawn samples\<close>

lemma fold_count:
  "fold (\<lambda>i count. if P i then count + 1 else count) [0..<n] (c::nat)
     = c + length (filter P [0..<n])"
  by (induction n arbitrary: c) simp_all

lemma fold_losses:
  "fold (\<lambda>i (la, lb). (la + f i, lb + g i)) [0..<n] (a, b :: real)
     = (a + (\<Sum>i<n. f i), b + (\<Sum>i<n. g i))"
  by (induction n arbitrary: a b) (simp_all add: add.assoc)

lemma probability_from_samples:
  assumes "monteCarloSample postA (monteCarloSamples this) rnd k = Some (samplesA, k1)"
    and "monteCarloSample postB (monteCarloSamples this) rnd k1 = Some (samplesB, k2)"
  shows "calculateProbabilityBGreaterThanAMonteCarlo this postA postB rnd k
           = Some (paired_superiority samplesA samplesB (monteCarloSamples this), k2)"
  using assms
  by (simp add: calculateProbabilityBGreaterThanAMonteCarlo_def fold_count
      paired_superiority_def count_B_exceeds_A_def)

lemma expectedLoss_from_samples:
  assumes "calculateProbabilityBGreaterThanAMonteCarlo this postA postB rnd k = Some (p, k1)"
    and "monteCarloSample postA (monteCarloSamples this) rnd k1 = Some (samplesA, k2)"
    and "monteCarloSample postB (monteCarloSamples this) rnd k2 = Some (samplesB, k3)"
  shows "calculateExpectedLoss this postA postB rnd k
           = Some (\<lparr>lossA = js_div (\<Sum>i<monteCarloSamples this. max 0 (samplesB ! i - samplesA ! i))
                              (real (monteCarloSamples this)),
                    lossB = js_div (\<Sum>i<monteCarloSamples this. max 0 (samplesA ! i - samplesB ! i))
                              (real (monteCarloSamples this)),
                    probBGreater = p\<rparr>, k3)"
  using assms
  by (simp add: calculateExpectedLoss_def fold_losses)

section \<open>The sequential loop\<close>

lemma sequentialTest_loop_done:
  "\<not> i < min (length dataA) (length dataB) \<Longrightarrow>
   sequentialTest_loop this dataA dataB threshold rnd i results k = Some (results, k)"
  by (subst sequentialTest_loop.simps) (rule if_not_P)

lemma sequentialTest_loop_shape:
  assumes "sequentialTest_loop this dataA dataB threshold rnd i results k = Some (rs, k')"
  shows "\<exists>new. rs = results @ new
           \<and> i + length new \<le> max i (min (length dataA) (length dataB))
           \<and> (\<forall>j<length new. step_of this dataA dataB threshold (i + j) (new ! j))
           \<and> (\<forall>j. Suc j < length new \<longrightarrow> \<not> shouldStop (new ! j))
           \<and> (i + length new = max i (min (length dataA) (length dataB))
                \<or> (new \<noteq> [] \<and> shouldStop (last new)))"
  using assms
proof (induction this dataA dataB threshold rnd i results k rule: sequentialTest_loop.induct)
  case (1 this dataA dataB threshold rnd i results k)
  let ?m = "min (length dataA) (length dataB)"
  show ?case
  proof (cases "i < ?m")
    case False
    then have "rs = results" using "1.prems" sequentialTest_loop_done [OF False] by simp
    moreover have "i + length ([] :: sequentialStep list) = max i ?m" using False by simp arith
    ultimately show ?thesis by simp
  next
    case True
    let ?pA = "calculatePosterior this (successes (dataA ! i)) (trials (dataA ! i)) None None"
    let ?pB = "calculatePosterior this (successes (dataB ! i)) (trials (dataB ! i)) None None"
    from "1.prems" True obtain p k1 where
      p: "calculateProbabilityBGreaterThanAMonteCarlo this ?pA ?pB rnd k = Some (p, k1)"
      by (subst (asm) sequentialTest_loop.simps) (auto simp: Let_def split: option.splits)
    from "1.prems" True p obtain e k2 where
      e: "calculateExpectedLoss this ?pA ?pB rnd k1 = Some (e, k2)"
      by (subst (asm) sequentialTest_loop.simps) (auto simp: Let_def split: option.splits)
    let ?stop = "js_ge p threshold \<or> js_le p (1 - threshold)"
    let ?r = "\<lparr>step = i + 1, probBGreater = p, expectedLoss = e,
               posteriorA = ?pA, posteriorB = ?pB, shouldStop = ?stop\<rparr>"
    have ok: "step_of this dataA dataB threshold i ?r"
      by (simp add: step_of_def)
    show ?thesis
    proof (cases ?stop)
      case stop: True
      have "rs = results @ [?r]"
        using "1.prems" True p e stop
        by (subst (asm) sequentialTest_loop.simps) (simp add: Let_def)
      moreover have "i + length [?r] \<le> max i ?m" using True by simp
      moreover have "\<forall>j<length [?r]. step_of this dataA dataB threshold (i + j) ([?r] ! j)"
        using ok by simp
      moreover have "\<forall>j. Suc j < length [?r] \<longrightarrow> \<not> shouldStop ([?r] ! j)" by simp
      moreover have "[?r] \<noteq> [] \<and> shouldStop (last [?r])" using stop by simp
      ultimately show ?thesis by blast
    next
      case go: False
      have rec: "sequentialTest_loop this dataA dataB threshold rnd (i + 1) (results @ [?r]) k2
                   = Some (rs, k')"
        using "1.prems" True p e go
        by (subst (asm) sequentialTest_loop.simps) (simp add: Let_def)
      from "1.IH" [OF True refl refl p refl e refl refl go rec]
      obtain new where new:
        "rs = (results @ [?r]) @ new"
        "i + 1 + length new \<le> max (i + 1) ?m"
        "\<forall>j<length new. step_of this dataA dataB threshold (i + 1 + j) (new ! j)"
        "\<forall>j. Suc j < length new \<longrightarrow> \<not> shouldStop (new ! j)"
        "i + 1 + length new = max (i + 1) ?m \<or> (new \<noteq> [] \<and> shouldStop (last new))"
        by blast
      have a: "rs = results @ (?r # new)" using new(1) by simp
      have b: "i + length (?r # new) \<le> max i ?m" using new(2) True by simp
      have c: "\<forall>j<length (?r # new). step_of this dataA dataB threshold (i + j) ((?r # new) ! j)"
      proof (intro allI impI)
        fix j assume "j < length (?r # new)"
        then show "step_of this dataA dataB threshold (i + j) ((?r # new) ! j)"
          using ok new(3) by (cases j) simp_all
      qed
      have d: "\<forall>j. Suc j < length (?r # new) \<longrightarrow> \<not> shouldStop ((?r # new) ! j)"
      proof (intro allI impI)
        fix j assume "Suc j < length (?r # new)"
        then show "\<not> shouldStop ((?r # new) ! j)"
          using go new(4) by (cases j) simp_all
      qed
      have e': "i + length (?r # new) = max i ?m \<or> (?r # new \<noteq> [] \<and> shouldStop (last (?r # new)))"
        using new(5) True by (cases "new = []") auto
      from a b c d e' show ?thesis by blast
    qed
  qed
qed

lemma sequentialTest_loop_returns:
  assumes "\<forall>j<min (length dataA) (length dataB). \<forall>k.
             calculateProbabilityBGreaterThanAMonteCarlo this
               (calculatePosterior this (successes (dataA ! j)) (trials (dataA ! j)) None None)
               (calculatePosterior this (successes (dataB ! j)) (trials (dataB ! j)) None None)
               rnd k \<noteq> None
             \<and> calculateExpectedLoss this
               (calculatePosterior this (successes (dataA ! j)) (trials (dataA ! j)) None None)
               (calculatePosterior this (successes (dataB ! j)) (trials (dataB ! j)) None None)
               rnd k \<noteq> None"
  shows "sequentialTest_loop this dataA dataB threshold rnd i results k \<noteq> None"
  using assms
proof (induction this dataA dataB threshold rnd i results k rule: sequentialTest_loop.induct)
  case (1 this dataA dataB threshold rnd i results k)
  let ?m = "min (length dataA) (length dataB)"
  show ?case
  proof (cases "i < ?m")
    case False
    then show ?thesis using sequentialTest_loop_done [OF False] by simp
  next
    case True
    let ?pA = "calculatePosterior this (successes (dataA ! i)) (trials (dataA ! i)) None None"
    let ?pB = "calculatePosterior this (successes (dataB ! i)) (trials (dataB ! i)) None None"
    from "1.prems" True obtain p k1 where
      p: "calculateProbabilityBGreaterThanAMonteCarlo this ?pA ?pB rnd k = Some (p, k1)"
      by fastforce
    from "1.prems" True obtain e k2 where
      e: "calculateExpectedLoss this ?pA ?pB rnd k1 = Some (e, k2)"
      by fastforce
    let ?stop = "js_ge p threshold \<or> js_le p (1 - threshold)"
    let ?r = "\<lparr>step = i + 1, probBGreater = p, expectedLoss = e,
               posteriorA = ?pA, posteriorB = ?pB, shouldStop = ?stop\<rparr>"
    show ?thesis
    proof (cases ?stop)
      case stop: True
      show ?thesis
        using True p e stop by (subst sequentialTest_loop.simps) (simp add: Let_def)
    next
      case go: False
      have "sequentialTest_loop this dataA dataB threshold rnd (i + 1) (results @ [?r]) k2 \<noteq> None"
        using "1.IH" [OF True refl refl p refl e refl refl go "1.prems"] .
      then show ?thesis
        using True p e go by (subst sequentialTest_loop.simps) (simp add: Let_def)
    qed
  qed
qed

lemma monteCarloSample_loop_returns:
  assumes "\<forall>k. sampleBeta \<alpha> \<beta> rnd k \<noteq> None"
  shows "monteCarloSample_loop \<alpha> \<beta> rnd n acc k \<noteq> None"
proof (induction n arbitrary: acc k)
  case 0
  then show ?case by simp
next
  case (Suc n)
  from assms obtain x k' where "sampleBeta \<alpha> \<beta> rnd k = Some (x, k')" by fastforce
  then show ?case using Suc.IH by simp
qed

lemma estimates_return:
  assumes "\<forall>k. sampleBeta (alpha postA) (beta postA) rnd k \<noteq> None"
    and "\<forall>k. sampleBeta (alpha postB) (beta postB) rnd k \<noteq> None"
  shows "calculateProbabilityBGreaterThanAMonteCarlo this postA postB rnd k \<noteq> None"
    and "calculateExpectedLoss this postA postB rnd k \<noteq> None"
proof -
  have A: "\<And>n k. monteCarloSample postA n rnd k \<noteq> None"
    using monteCarloSample_loop_returns [OF assms(1)] by (simp add: monteCarloSample_def)
  have B: "\<And>n k. monteCarloSample postB n rnd k \<noteq> None"
    using monteCarloSample_loop_returns [OF assms(2)] by (simp add: monteCarloSample_def)
  show P: "\<And>k. calculateProbabilityBGreaterThanAMonteCarlo this postA postB rnd k \<noteq> None"
  proof -
    fix k
    obtain sA k1 where a: "monteCarloSample postA (monteCarloSamples this) rnd k = Some (sA, k1)"
      using A [of "monteCarloSamples this" k] by fastforce
    obtain sB k2 where b: "monteCarloSample postB (monteCarloSamples this) rnd k1 = Some (sB, k2)"
      using B [of "monteCarloSamples this" k1] by fastforce
    show "calculateProbabilityBGreaterThanAMonteCarlo this postA postB rnd k \<noteq> None"
      using probability_from_samples [OF a b] by simp
  qed
  obtain p k1 where p: "calculateProbabilityBGreaterThanAMonteCarlo this postA postB rnd k = Some (p, k1)"
    using P [of k] by fastforce
  obtain sA k2 where a: "monteCarloSample postA (monteCarloSamples this) rnd k1 = Some (sA, k2)"
    using A [of "monteCarloSamples this" k1] by fastforce
  obtain sB k3 where b: "monteCarloSample postB (monteCarloSamples this) rnd k2 = Some (sB, k3)"
    using B [of "monteCarloSamples this" k2] by fastforce
  show "calculateExpectedLoss this postA postB rnd k \<noteq> None"
    using expectedLoss_from_samples [OF p a b] by simp
qed

text \<open>
  C1, as stated, fails: the loop keeps no running totals. On the per-step observations
  \<open>(0, 1)\<close>, \<open>(0, 0)\<close> for arm A the cumulative total at the second step is \<open>(0, 1)\<close>,
  with posterior \<open>(1, 2)\<close>; the second emitted record has the posterior \<open>(1, 1)\<close> of the
  second observation alone, and the posterior's \<open>beta\<close> decreases from the first record
  to the second.
\<close>

theorem C1_posteriors_not_cumulative:
  "sequentialTest demo_calculator demo_dataA demo_dataB 0.95 demo_draws 0 = Some (demo_steps, 48)
   \<and> cumulativeObservation demo_dataA 1 = \<lparr>successes = 0, trials = 1\<rparr>
   \<and> calculatePosterior demo_calculator (successes (cumulativeObservation demo_dataA 1))
        (trials (cumulativeObservation demo_dataA 1)) None None = \<lparr>alpha = 1, beta = 2\<rparr>
   \<and> posteriorA (demo_steps ! 1) = \<lparr>alpha = 1, beta = 1\<rparr>
   \<and> beta (posteriorA (demo_steps ! 1)) < beta (posteriorA (demo_steps ! 0))"
proof (intro conjI)
  show "sequentialTest demo_calculator demo_dataA demo_dataB 0.95 demo_draws 0
          = Some (demo_steps, 48)"
    by (rule demo_run)
  show c: "cumulativeObservation demo_dataA 1 = \<lparr>successes = 0, trials = 1\<rparr>"
    by (simp add: cumulativeObservation_def demo_dataA_def)
  show "calculatePosterior demo_calculator (successes (cumulativeObservation demo_dataA 1))
          (trials (cumulativeObservation demo_dataA 1)) None None = \<lparr>alpha = 1, beta = 2\<rparr>"
    unfolding c by (simp add: calculatePosterior_def demo_calculator_def)
  show "posteriorA (demo_steps ! 1) = \<lparr>alpha = 1, beta = 1\<rparr>"
    by (simp add: demo_steps_def)
  show "beta (posteriorA (demo_steps ! 1)) < beta (posteriorA (demo_steps ! 0))"
    by (simp add: demo_steps_def)
qed

text \<open>
  C1, amended: at every processed step \<open>i\<close> the sequential test computes both
  posteriors from the \<open>i\<close>-th elements of the two lists alone,
  \<open>(alpha0 + successes, beta0 + (trials - successes))\<close>; it adds nothing up. The lists
  are read as totals observed so far.
\<close>

theorem C1_posteriors_from_step_observation:
  assumes "sequentialTest this dataA dataB threshold rnd k = Some (rs, k')"
  shows "\<forall>j<length rs.
           j < length dataA \<and> j < length dataB
           \<and> posteriorA (rs ! j)
               = \<lparr>alpha = alpha this + successes (dataA ! j),
                  beta = beta this + (trials (dataA ! j) - successes (dataA ! j))\<rparr>
           \<and> posteriorB (rs ! j)
               = \<lparr>alpha = alpha this + successes (dataB ! j),
                  beta = beta this + (trials (dataB ! j) - successes (dataB ! j))\<rparr>"
proof -
  from sequentialTest_loop_shape [OF assms [unfolded sequentialTest_def]]
  have len: "length rs \<le> min (length dataA) (length dataB)"
    and ok: "\<forall>j<length rs. step_of this dataA dataB threshold j (rs ! j)"
    by auto
  show ?thesis
    using len ok by (auto simp: step_of_def calculatePosterior_def)
qed

theorem C1_posteriors_from_step_observation_witness:
  "sequentialTest demo_calculator demo_dataA demo_dataB 0.95 demo_draws 0 = Some (demo_steps, 48)
   \<and> posteriorA (demo_steps ! 0) = \<lparr>alpha = 1 + 0, beta = 1 + (1 - 0)\<rparr>
   \<and> posteriorA (demo_steps ! 1) = \<lparr>alpha = 1 + 0, beta = 1 + (0 - 0)\<rparr>
   \<and> posteriorB (demo_steps ! 1) = \<lparr>alpha = 1 + 0, beta = 1 + (0 - 0)\<rparr>"
proof -
  have "length demo_steps = 2" by (simp add: demo_steps_def)
  then show ?thesis
    using C1_posteriors_from_step_observation [OF demo_run] demo_run
    by (simp add: demo_dataA_def demo_dataB_def demo_calculator_def)
qed

lemma monteCarloSample_hangs:
  assumes "0 < n" and "sampleBeta (alpha posterior) (beta posterior) rnd k = None"
  shows "monteCarloSample posterior n rnd k = None"
proof -
  from assms(1) obtain m where "n = Suc m" by (cases n) simp_all
  then show ?thesis using assms(2) by (simp add: monteCarloSample_def)
qed

text \<open>
  C4 holds of the intended behaviour and fails on the code. With the prior
  \<open>(1/2, 1/2)\<close> and the observation of 0 successes in 3 trials for both arms, the
  posteriors are \<open>(1/2, 7/2)\<close>; \<open>sampleBeta\<close> sends these shapes to Cheng's sampler,
  whose set-up computes \<open>Math.sqrt((4 - 2) / (2 * 0.5 * 3.5 - 4)) = Math.sqrt(-4)\<close>, and
  the sampling loop exits on no sequence of draws. The sequential test does not return
  and emits no record, where C4 has it emit the records of the shorter list up to the
  first stopping step. All the numbers on this path are exact in double precision.
\<close>

theorem C4_sequential_test_does_not_return:
  "sequentialTest \<lparr>alpha = 1 / 2, beta = 1 / 2, monteCarloSamples = 10000\<rparr>
     [\<lparr>successes = 0, trials = 3\<rparr>] [\<lparr>successes = 0, trials = 3\<rparr>] 0.95 rnd k = None"
proof -
  let ?calc = "\<lparr>alpha = 1 / 2, beta = 1 / 2, monteCarloSamples = 10000\<rparr>"
  let ?post = "\<lparr>alpha = 1 / 2, beta = 7 / 2\<rparr>"
  have post: "calculatePosterior ?calc 0 3 None None = ?post"
    by (simp add: calculatePosterior_def)
  have "sampleBeta (alpha ?post) (beta ?post) rnd k = None"
    by (simp add: sampleBeta_def sampleBetaCheng_def)
  then have "monteCarloSample ?post 10000 rnd k = None"
    by (intro monteCarloSample_hangs) simp_all
  then have "calculateProbabilityBGreaterThanAMonteCarlo ?calc ?post ?post rnd k = None"
    by (simp add: calculateProbabilityBGreaterThanAMonteCarlo_def)
  then show ?thesis
    unfolding sequentialTest_def
    by (subst sequentialTest_loop.simps) (simp add: post)
qed

section \<open>Expected loss and superiority probability\<close>

lemma monteCarloSample_1:
  assumes "sampleBeta (alpha p) (beta p) rnd k = Some (x, k1)"
  shows "monteCarloSample p 1 rnd k = Some ([x], k1)"
  using assms by (simp add: monteCarloSample_def)

lemma demo_single_samples:
  "monteCarloSample \<lparr>alpha = 1, beta = 1\<rparr> 1 demo_draws 0 = Some ([500 / 501], 2)"
  "monteCarloSample \<lparr>alpha = 1, beta = 1\<rparr> 1 demo_draws 2 = Some ([1000 / 1003], 4)"
  "monteCarloSample \<lparr>alpha = 1, beta = 1\<rparr> 1 demo_draws 4 = Some ([1000 / 1003], 6)"
  "monteCarloSample \<lparr>alpha = 1, beta = 1\<rparr> 1 demo_draws 6 = Some ([500 / 501], 8)"
proof -
  have a: "sampleBeta 1 1 demo_draws 0 = Some (500 / 501, 2)"
    using sampleBeta_1_1_half [of demo_draws 0] by (simp add: demo_draws_def)
  have b: "sampleBeta 1 1 demo_draws 2 = Some (1000 / 1003, 4)"
    using sampleBeta_1_1_third [of demo_draws 2] by (simp add: demo_draws_def)
  have c: "sampleBeta 1 1 demo_draws 4 = Some (1000 / 1003, 6)"
    using sampleBeta_1_1_third [of demo_draws 4] by (simp add: demo_draws_def)
  have d: "sampleBeta 1 1 demo_draws 6 = Some (500 / 501, 8)"
    using sampleBeta_1_1_half [of demo_draws 6] by (simp add: demo_draws_def)
  show "monteCarloSample \<lparr>alpha = 1, beta = 1\<rparr> 1 demo_draws 0 = Some ([500 / 501], 2)"
    by (rule monteCarloSample_1) (simp add: a)
  show "monteCarloSample \<lparr>alpha = 1, beta = 1\<rparr> 1 demo_draws 2 = Some ([1000 / 1003], 4)"
    by (rule monteCarloSample_1) (simp add: b)
  show "monteCarloSample \<lparr>alpha = 1, beta = 1\<rparr> 1 demo_draws 4 = Some ([1000 / 1003], 6)"
    by (rule monteCarloSample_1) (simp add: c)
  show "monteCarloSample \<lparr>alpha = 1, beta = 1\<rparr> 1 demo_draws 6 = Some ([500 / 501], 8)"
    by (rule monteCarloSample_1) (simp add: d)
qed

text \<open>
  C5, as stated, fails: \<open>calculateExpectedLoss\<close> first calls
  \<open>calculateProbabilityBGreaterThanAMonteCarlo\<close>, which draws its own samples, and then
  draws new samples for the losses. With one sample per arm, the losses come from the
  pair \<open>(1000/1003, 500/501)\<close>, in which B exceeds A (\<open>lossA > 0\<close>, superiority \<open>1\<close>),
  and the returned \<open>probBGreater\<close> is \<open>0\<close>.
\<close>

theorem C5_probability_from_other_samples:
  "calculateExpectedLoss \<lparr>alpha = 1, beta = 1, monteCarloSamples = 1\<rparr>
     \<lparr>alpha = 1, beta = 1\<rparr> \<lparr>alpha = 1, beta = 1\<rparr> demo_draws 0
     = Some (\<lparr>lossA = Num (500 / 502503), lossB = Num 0, probBGreater = Num 0\<rparr>, 8)
   \<and> monteCarloSample \<lparr>alpha = 1, beta = 1\<rparr> 1 demo_draws 4 = Some ([1000 / 1003], 6)
   \<and> monteCarloSample \<lparr>alpha = 1, beta = 1\<rparr> 1 demo_draws 6 = Some ([500 / 501], 8)
   \<and> paired_superiority [1000 / 1003] [500 / 501] 1 = Num 1"
proof (intro conjI)
  let ?c = "\<lparr>alpha = 1, beta = 1, monteCarloSamples = 1\<rparr>"
  let ?p = "\<lparr>alpha = 1, beta = 1\<rparr>"
  have n: "monteCarloSamples ?c = 1" by simp
  have p: "calculateProbabilityBGreaterThanAMonteCarlo ?c ?p ?p demo_draws 0
             = Some (paired_superiority [500 / 501] [1000 / 1003] 1, 4)"
    using probability_from_samples [of ?p ?c demo_draws 0 "[500 / 501]" 2 ?p "[1000 / 1003]" 4]
      demo_single_samples by simp
  show "calculateExpectedLoss ?c ?p ?p demo_draws 0
          = Some (\<lparr>lossA = Num (500 / 502503), lossB = Num 0, probBGreater = Num 0\<rparr>, 8)"
    using expectedLoss_from_samples [of ?c ?p ?p demo_draws 0 _ 4 "[1000 / 1003]" 6 "[500 / 501]" 8]
      p demo_single_samples
    by (simp add: js_div_def paired_superiority_def count_B_exceeds_A_def)
  show "monteCarloSample ?p 1 demo_draws 4 = Some ([1000 / 1003], 6)"
    by (rule demo_single_samples)
  show "monteCarloSample ?p 1 demo_draws 6 = Some ([500 / 501], 8)"
    by (rule demo_single_samples)
  show "paired_superiority [1000 / 1003] [500 / 501] 1 = Num 1"
    by (simp add: paired_superiority_def count_B_exceeds_A_def js_div_def)
qed

text \<open>
  C5, amended: \<open>calculateExpectedLoss\<close> draws two sets of \<open>n\<close> paired samples. It
  returns the superiority probability of the first set, and, from the second set,
  \<open>lossA\<close> as the average of \<open>max(0, sampleB - sampleA)\<close> and \<open>lossB\<close> as the average
  of \<open>max(0, sampleA - sampleB)\<close>.
\<close>

theorem C5_losses_and_probability:
  assumes "0 < monteCarloSamples this"
    and "monteCarloSample postA (monteCarloSamples this) rnd k = Some (firstA, k1)"
    and "monteCarloSample postB (monteCarloSamples this) rnd k1 = Some (firstB, k2)"
    and "monteCarloSample postA (monteCarloSamples this) rnd k2 = Some (samplesA, k3)"
    and "monteCarloSample postB (monteCarloSamples this) rnd k3 = Some (samplesB, k4)"
  shows "calculateExpectedLoss this postA postB rnd k
           = Some (\<lparr>lossA = Num ((\<Sum>i<monteCarloSamples this. max 0 (samplesB ! i - samplesA ! i))
                                 / real (monteCarloSamples this)),
                    lossB = Num ((\<Sum>i<monteCarloSamples this. max 0 (samplesA ! i - samplesB ! i))
                                 / real (monteCarloSamples this)),
                    probBGreater = paired_superiority firstA firstB (monteCarloSamples this)\<rparr>,
                   k4)"
  using expectedLoss_from_samples [OF probability_from_samples [OF assms(2,3)] assms(4,5)] assms(1)
  by (simp add: js_div_def)

theorem C5_losses_and_probability_witness:
  "calculateExpectedLoss \<lparr>alpha = 1, beta = 1, monteCarloSamples = 1\<rparr>
     \<lparr>alpha = 1, beta = 1\<rparr> \<lparr>alpha = 1, beta = 1\<rparr> demo_draws 0
     = Some (\<lparr>lossA = Num (max 0 (500 / 501 - 1000 / 1003) / 1),
              lossB = Num (max 0 (1000 / 1003 - 500 / 501) / 1),
              probBGreater = paired_superiority [500 / 501] [1000 / 1003] 1\<rparr>, 8)"
  using C5_losses_and_probability
    [of "\<lparr>alpha = 1, beta = 1, monteCarloSamples = 1\<rparr>" "\<lparr>alpha = 1, beta = 1\<rparr>" demo_draws 0
        "[500 / 501]" 2 "\<lparr>alpha = 1, beta = 1\<rparr>" "[1000 / 1003]" 4 "[1000 / 1003]" 6 "[500 / 501]" 8]
    demo_single_samples
  by simp

text \<open>
  C10: for every pair of posteriors and every positive sample count \<open>n\<close>, when the two
  sample arrays have been drawn the estimate is \<open>c / n\<close>, where \<open>c\<close> is the number of
  pairs in which the B sample strictly exceeds the A sample; \<open>c \<le> n\<close>, so the value lies
  in \<open>[0, 1]\<close>.
\<close>

theorem C10_estimate_is_fraction:
  assumes "0 < monteCarloSamples this"
    and "monteCarloSample postA (monteCarloSamples this) rnd k = Some (samplesA, k1)"
    and "monteCarloSample postB (monteCarloSamples this) rnd k1 = Some (samplesB, k2)"
  shows "calculateProbabilityBGreaterThanAMonteCarlo this postA postB rnd k
           = Some (Num (real (count_B_exceeds_A samplesA samplesB (monteCarloSamples this))
                        / real (monteCarloSamples this)), k2)
         \<and> count_B_exceeds_A samplesA samplesB (monteCarloSamples this) \<le> monteCarloSamples this
         \<and> 0 \<le> real (count_B_exceeds_A samplesA samplesB (monteCarloSamples this))
                 / real (monteCarloSamples this)
         \<and> real (count_B_exceeds_A samplesA samplesB (monteCarloSamples this))
             / real (monteCarloSamples this) \<le> 1"
proof -
  let ?n = "monteCarloSamples this"
  let ?c = "count_B_exceeds_A samplesA samplesB ?n"
  have le: "?c \<le> ?n"
    using length_filter_le [of "\<lambda>i. samplesB ! i > samplesA ! i" "[0..<?n]"]
    by (simp add: count_B_exceeds_A_def)
  have res: "calculateProbabilityBGreaterThanAMonteCarlo this postA postB rnd k
               = Some (Num (real ?c / real ?n), k2)"
    using probability_from_samples [OF assms(2,3)] assms(1)
    by (simp add: paired_superiority_def js_div_def)
  have "real ?c / real ?n \<le> 1"
    using le assms(1) by simp
  with le res show ?thesis by simp
qed

theorem C10_estimate_is_fraction_witness:
  "count_B_exceeds_A [1 / 3, 1 / 5] [1 / 5, 1 / 3] 2 = 1
   \<and> calculateProbabilityBGreaterThanAMonteCarlo demo_calculator
       \<lparr>alpha = 1, beta = 2\<rparr> \<lparr>alpha = 1, beta = 2\<rparr> demo_draws 0 = Some (Num (1 / 2), 8)"
proof -
  have n: "monteCarloSamples demo_calculator = 2" by (simp add: demo_calculator_def)
  have c: "count_B_exceeds_A [1 / 3, 1 / 5] [1 / 5, 1 / 3] 2 = 1"
    by (simp add: count_B_exceeds_A_def upt_0_2)
  have a: "monteCarloSample \<lparr>alpha = 1, beta = 2\<rparr> (monteCarloSamples demo_calculator) demo_draws 0
             = Some ([1 / 3, 1 / 5], 4)"
    using demo_samples_1_2(1) [of 0] n by simp
  have b: "monteCarloSample \<lparr>alpha = 1, beta = 2\<rparr> (monteCarloSamples demo_calculator) demo_draws 4
             = Some ([1 / 5, 1 / 3], 8)"
    using demo_samples_1_2(2) [of 0] n by simp
  have pos: "0 < monteCarloSamples demo_calculator" using n by simp
  show ?thesis
    using C10_estimate_is_fraction [OF pos a b] c n by simp
qed


end
